theory Spec2Isabelle
  imports Main "HOL-Library.Word"
begin

section \<open>JavaScript strings\<close>

text \<open>
  A JavaScript string is a sequence of UTF-16 code units: \<open>s.length\<close> counts them and
  \<open>s.slice\<close>, \<open>s.split\<close>, \<open>s.trim\<close> and \<open>s.replace\<close> work on them. A string
  literal of the source is written \<open>lit ''...''\<close>; all literals of \<open>index.js\<close> are ASCII.
\<close>

type_synonym jstring = "16 word list"

definition lit :: "string \<Rightarrow> jstring" where
  "lit s = map (\<lambda>c. of_nat (of_char c)) s"

text \<open>\<open>a.join(sep)\<close> on an array of strings.\<close>

fun join :: "jstring \<Rightarrow> jstring list \<Rightarrow> jstring" where
  "join sep [] = []"
| "join sep [x] = x"
| "join sep (x # y # ys) = x @ sep @ join sep (y # ys)"

text \<open>
  \<open>s.split(sep)\<close> for a separator of one code unit: the segments between the
  occurrences of the separator, empty segments kept; the empty string gives one empty
  segment.
\<close>

fun split :: "16 word \<Rightarrow> jstring \<Rightarrow> jstring list" where
  "split sep [] = [[]]"
| "split sep (c # cs) =
     (if c = sep then [] # split sep cs
      else (case split sep cs of
              [] \<Rightarrow> [[c]]
            | seg # segs \<Rightarrow> (c # seg) # segs))"

text \<open>
  \<open>s.trim()\<close> removes the white space and line terminator code units of ECMAScript from
  both ends.
\<close>

definition is_space :: "16 word \<Rightarrow> bool" where
  "is_space c \<longleftrightarrow>
     c \<in> {0x09, 0x0A, 0x0B, 0x0C, 0x0D, 0x20, 0xA0, 0x1680, 0x2028, 0x2029, 0x202F,
          0x205F, 0x3000, 0xFEFF}
     \<or> (0x2000 \<le> c \<and> c \<le> 0x200A)"

definition trim :: "jstring \<Rightarrow> jstring" where
  "trim s = rev (dropWhile is_space (rev (dropWhile is_space s)))"

text \<open>The decimal digits of a number, as a template literal prints a non-negative integer.\<close>

fun show_nat :: "nat \<Rightarrow> jstring" where
  "show_nat n =
     (if n < 10 then [of_nat (48 + n)]
      else show_nat (n div 10) @ [of_nat (48 + n mod 10)])"

declare show_nat.simps [simp del]

text \<open>The number a string of decimal digits denotes.\<close>

definition digits_value :: "jstring \<Rightarrow> nat" where
  "digits_value ds = foldl (\<lambda>a c. 10 * a + (unat c - 48)) 0 ds"

section \<open>The helpers of index.js\<close>

text \<open>
  \<open>const truncate = (s, max=60000) => s.length > max
       ? s.slice(0,max)+`\n...[truncated ${s.length-max} chars]` : s;\<close>
  It is \<open>truncate_text\<close> here: every record of the theory has a \<open>truncate\<close> of its own.
\<close>

definition truncate_text :: "jstring \<Rightarrow> nat \<Rightarrow> jstring" where
  "truncate_text s mx =
     (if length s > mx
      then take mx s @ lit ''\<newline>...[truncated '' @ show_nat (length s - mx) @ lit '' chars]''
      else s)"

text \<open>
  \<open>mx\<close> is the parameter \<open>max\<close>; every call of the source leaves it to its default.
\<close>

definition truncate_default :: "jstring \<Rightarrow> jstring" where
  "truncate_default s = truncate_text s 60000"

text \<open>
  \<open>const runOf = key => (key.split("/").length >= 3 ? key.split("/")[1] : null);\<close>
  \<open>None\<close> is \<open>null\<close>.
\<close>

definition runOf :: "jstring \<Rightarrow> jstring option" where
  "runOf key =
     (if length (split 0x2F key) \<ge> 3 then Some (split 0x2F key ! 1) else None)"

text \<open>
  A grouping key in a condition (\<open>run ? ... : ...\<close>, \<open>if (run)\<close>): \<open>null\<close> and the empty
  string are falsy.
\<close>

fun truthy_run :: "jstring option \<Rightarrow> bool" where
  "truthy_run None = False"
| "truthy_run (Some r) = (r \<noteq> [])"

text \<open>
  \<open>`${SUBJECT_PREFIX ? SUBJECT_PREFIX + " " : ""}CI Report ${run ? `- ${run}` : ""}`.trim()\<close>,
  where \<open>SUBJECT_PREFIX = process.env.EMAIL_SUBJECT_PREFIX || ""\<close> is a string.
\<close>

definition subject_of :: "jstring \<Rightarrow> jstring option \<Rightarrow> jstring" where
  "subject_of prefix run =
     trim ((if prefix \<noteq> [] then prefix @ lit '' '' else [])
           @ lit ''CI Report ''
           @ (case run of
                None \<Rightarrow> []
              | Some r \<Rightarrow> if r \<noteq> [] then lit ''- '' @ r else []))"

text \<open>
  \<open>buildPrompt(allText)\<close>: the template literal of the source, then \<open>.trim()\<close>.
\<close>

definition prompt_head :: jstring where
  "prompt_head = lit (''\<newline>You are a CI quality assistant. Create a clear, executive-friendly report from the data below.\<newline>''
     @ ''\<newline>''
     @ ''Include sections:\<newline>''
     @ ''- Build/Test Overview\<newline>''
     @ ''- Unit/Integration test summary (pass/fail counts, notable failing tests)\<newline>''
     @ ''- Code quality issues from SonarQube (rule types, severities, hotspots)\<newline>''
     @ ''- Trends or risks\<newline>''
     @ ''- Action items for the team\<newline>''
     @ ''\<newline>''
     @ ''Be concise and readable for email. If data is missing, state assumptions.\<newline>''
     @ ''\<newline>''
     @ ''<RAW_CI_DATA>\<newline>'')"

definition prompt_tail :: jstring where
  "prompt_tail = lit ''\<newline></RAW_CI_DATA>\<newline>''"

definition buildPrompt :: "jstring \<Rightarrow> jstring" where
  "buildPrompt allText = trim (prompt_head @ allText @ prompt_tail)"

text \<open>The section of one file in the aggregated buffer: \<open>`\n--- FILE: ${key} ---\n${text}`\<close>.\<close>

definition file_section :: "jstring \<Rightarrow> jstring \<Rightarrow> jstring" where
  "file_section key text = lit ''\<newline>--- FILE: '' @ key @ lit '' ---\<newline>'' @ text"

section \<open>Percent-decoding\<close>

text \<open>
  \<open>decodeURIComponent\<close> as ECMA-262 defines it (Decode with an empty set of preserved
  escapes): a code unit other than \<open>%\<close> stands for itself; \<open>%XX\<close> gives an octet; an
  octet below \<open>0x80\<close> is the code unit itself; a lead octet with \<open>n\<close> leading one bits
  (\<open>2 \<le> n \<le> 4\<close>) takes \<open>n - 1\<close> further escapes, and the octets must be the well-formed
  UTF-8 encoding of a code point, which is appended in UTF-16. Everything else throws
  \<open>URIError\<close>, here \<open>None\<close>.
\<close>

definition hex_digit :: "16 word \<Rightarrow> nat option" where
  "hex_digit c =
     (if 0x30 \<le> c \<and> c \<le> 0x39 then Some (unat c - 0x30)
      else if 0x41 \<le> c \<and> c \<le> 0x46 then Some (unat c - 0x41 + 10)
      else if 0x61 \<le> c \<and> c \<le> 0x66 then Some (unat c - 0x61 + 10)
      else None)"

fun hex_octet :: "jstring \<Rightarrow> nat option" where
  "hex_octet (a # b # cs) =
     (case (hex_digit a, hex_digit b) of
        (Some x, Some y) \<Rightarrow> Some (16 * x + y)
      | _ \<Rightarrow> None)"
| "hex_octet _ = None"

definition leading_ones :: "nat \<Rightarrow> nat" where
  "leading_ones b =
     (if b < 0x80 then 0 else if b < 0xC0 then 1 else if b < 0xE0 then 2
      else if b < 0xF0 then 3 else if b < 0xF8 then 4 else 5)"

text \<open>The octets of the \<open>j\<close> escapes after a lead octet; they take \<open>3 * j\<close> code units.\<close>

fun more_octets :: "nat \<Rightarrow> jstring \<Rightarrow> nat list option" where
  "more_octets 0 cs = Some []"
| "more_octets (Suc j) cs =
     (case cs of
        [] \<Rightarrow> None
      | c # cs' \<Rightarrow>
          if c \<noteq> 0x25 then None
          else (case hex_octet cs' of
                  None \<Rightarrow> None
                | Some b \<Rightarrow> map_option ((#) b) (more_octets j (drop 2 cs'))))"

definition continuation :: "nat \<Rightarrow> bool" where
  "continuation b \<longleftrightarrow> 0x80 \<le> b \<and> b < 0xC0"

text \<open>
  The code point of a multi-octet sequence, when it is well formed: continuation octets in
  \<open>0x80..0xBF\<close>, no overlong form, no surrogate, at most \<open>0x10FFFF\<close>.
\<close>

fun utf8_code_point :: "nat list \<Rightarrow> nat option" where
  "utf8_code_point [b0, b1] =
     (let v = (b0 - 0xC0) * 0x40 + (b1 - 0x80)
      in if continuation b1 \<and> 0x80 \<le> v then Some v else None)"
| "utf8_code_point [b0, b1, b2] =
     (let v = (b0 - 0xE0) * 0x1000 + (b1 - 0x80) * 0x40 + (b2 - 0x80)
      in if continuation b1 \<and> continuation b2 \<and> 0x800 \<le> v
            \<and> \<not> (0xD800 \<le> v \<and> v \<le> 0xDFFF)
         then Some v else None)"
| "utf8_code_point [b0, b1, b2, b3] =
     (let v = (b0 - 0xF0) * 0x40000 + (b1 - 0x80) * 0x1000 + (b2 - 0x80) * 0x40 + (b3 - 0x80)
      in if continuation b1 \<and> continuation b2 \<and> continuation b3
            \<and> 0x10000 \<le> v \<and> v \<le> 0x10FFFF
         then Some v else None)"
| "utf8_code_point _ = None"

definition utf16_encode :: "nat \<Rightarrow> jstring" where
  "utf16_encode v =
     (if v < 0x10000 then [of_nat v]
      else [of_nat (0xD800 + (v - 0x10000) div 0x400),
            of_nat (0xDC00 + (v - 0x10000) mod 0x400)])"

fun decodeURIComponent :: "jstring \<Rightarrow> jstring option" where
  "decodeURIComponent [] = Some []"
| "decodeURIComponent (c # cs) =
     (if c \<noteq> 0x25 then map_option ((#) c) (decodeURIComponent cs)
      else (case hex_octet cs of
              None \<Rightarrow> None
            | Some b \<Rightarrow>
                if leading_ones b = 0
                then map_option ((#) (of_nat b)) (decodeURIComponent (drop 2 cs))
                else if leading_ones b = 1 \<or> leading_ones b > 4 then None
                else (case more_octets (leading_ones b - 1) (drop 2 cs) of
                        None \<Rightarrow> None
                      | Some bs \<Rightarrow>
                          (case utf8_code_point (b # bs) of
                             None \<Rightarrow> None
                           | Some v \<Rightarrow>
                               map_option ((@) (utf16_encode v))
                                 (decodeURIComponent (drop (2 + 3 * (leading_ones b - 1)) cs))))))"

text \<open>\<open>s.replace(/\+/g, " ")\<close>: every \<open>+\<close> becomes a space.\<close>

definition replace_plus :: "jstring \<Rightarrow> jstring" where
  "replace_plus s = map (\<lambda>c. if c = 0x2B then 0x20 else c) s"

section \<open>Values, events and services\<close>

text \<open>
  A value that \<open>JSON.parse\<close> returns. Numbers matter to the handler only through their
  truthiness (zero is falsy) and through having no properties, so integers stand for them.
  An object is the list of its own properties, looked up from the front. Where an
  expression of the source can also be \<open>undefined\<close>, its model is a \<open>json option\<close> and
  \<open>None\<close> is \<open>undefined\<close>.
\<close>

datatype json =
    JNull
  | JBool bool
  | JNum int
  | JStr jstring
  | JArr "json list"
  | JObj "(jstring \<times> json) list"

datatype error = SyntaxError | TypeError | URIError | ServiceError jstring

fun truthy :: "json \<Rightarrow> bool" where
  "truthy JNull = False"
| "truthy (JBool b) = b"
| "truthy (JNum n) = (n \<noteq> 0)"
| "truthy (JStr s) = (s \<noteq> [])"
| "truthy (JArr xs) = True"
| "truthy (JObj kvs) = True"

text \<open>
  \<open>v.name\<close> on a value other than \<open>null\<close> and \<open>undefined\<close>, for the names the source
  reads (\<open>Records\<close>, \<open>s3\<close>, \<open>object\<close>, \<open>key\<close>, \<open>results\<close>, \<open>outputText\<close>): only an
  object can have them; arrays, strings, numbers and booleans give \<open>undefined\<close>.
\<close>

fun property :: "jstring \<Rightarrow> json \<Rightarrow> json option" where
  "property name (JObj kvs) = map_of kvs name"
| "property name v = None"

text \<open>\<open>v[0]\<close> on a value other than \<open>null\<close> and \<open>undefined\<close>.\<close>

fun index0 :: "json \<Rightarrow> json option" where
  "index0 (JArr xs) = (case xs of [] \<Rightarrow> None | x # _ \<Rightarrow> Some x)"
| "index0 (JStr s) = (case s of [] \<Rightarrow> None | c # _ \<Rightarrow> Some (JStr [c]))"
| "index0 (JObj kvs) = map_of kvs (lit ''0'')"
| "index0 v = None"

text \<open>\<open>v.name\<close> where \<open>v\<close> may be \<open>null\<close> or \<open>undefined\<close>: then a \<open>TypeError\<close>.\<close>

fun read_member :: "jstring \<Rightarrow> json option \<Rightarrow> error + json option" where
  "read_member name None = Inl TypeError"
| "read_member name (Some JNull) = Inl TypeError"
| "read_member name (Some v) = Inr (property name v)"

text \<open>Optional chaining \<open>v?.name\<close> and \<open>v?.[0]\<close>: \<open>undefined\<close> on \<open>null\<close> and \<open>undefined\<close>.\<close>

fun chain :: "(json \<Rightarrow> json option) \<Rightarrow> json option \<Rightarrow> json option" where
  "chain f None = None"
| "chain f (Some JNull) = None"
| "chain f (Some v) = f v"

text \<open>
  The invocation payload, with the fields the handler reads: \<open>event.Records\<close>,
  \<open>rec.Sns\<close>, \<open>rec.Sns.Message\<close>. An absent field is \<open>None\<close>.
\<close>

record sns =
  Message :: "jstring option"

record sns_record =
  Sns :: "sns option"

record event =
  Records :: "sns_record list option"

text \<open>What the object store returns: a listing (\<open>list.Contents\<close>, \<open>obj.Key\<close>) and a body.\<close>

record s3_object =
  Key :: "jstring option"

record list_output =
  Contents :: "s3_object list option"

text \<open>
  The shapes of \<open>got.Body\<close> that \<open>bodyToString\<close> tells apart, each with the text that
  decoding it as UTF-8 gives, or with the error that reading it raises.
\<close>

datatype body =
    NoBody
  | Bytes jstring
  | Transformable "error + jstring"
  | Readable "error + jstring"

text \<open>
  The environment of one invocation: the configuration, \<open>JSON.parse\<close> (\<open>None\<close> when it
  throws a \<open>SyntaxError\<close>) and the three services. A service call either raises (\<open>Inl\<close>)
  or returns. \<open>bedrock_send\<close> takes the prompt (the rest of the request is constant) and
  returns the text of \<open>resp.body\<close>.
\<close>

record env =
  SUBJECT_PREFIX :: jstring
  JSON_parse :: "jstring \<Rightarrow> json option"
  s3_list :: "jstring \<Rightarrow> error + list_output"
  s3_get :: "jstring \<Rightarrow> error + body"
  bedrock_send :: "jstring \<Rightarrow> error + jstring"
  ses_send :: "jstring \<Rightarrow> json \<Rightarrow> error + unit"

text \<open>The service calls a run of the handler attempts, in order.\<close>

datatype call =
    ListObjects jstring
  | GetObject jstring
  | InvokeModel jstring
  | SendEmail jstring json

text \<open>The value the handler returns: \<open>{ ok: true }\<close>.\<close>

record result =
  ok :: bool

section \<open>Aggregation\<close>

fun bodyToString :: "body \<Rightarrow> error + jstring" where
  "bodyToString NoBody = Inr []"
| "bodyToString (Bytes text) = Inr text"
| "bodyToString (Transformable r) = r"
| "bodyToString (Readable r) = r"

text \<open>
  \<open>await bodyToString((await s3.send(new GetObjectCommand({ Bucket: BUCKET, Key: key }))).Body)\<close>
\<close>

definition get_text :: "env \<Rightarrow> jstring \<Rightarrow> error + jstring" where
  "get_text env key =
     (case s3_get env key of
        Inl e \<Rightarrow> Inl e
      | Inr b \<Rightarrow> bodyToString b)"

text \<open>\<open>list.Contents || []\<close>\<close>

definition contents_of :: "list_output \<Rightarrow> s3_object list" where
  "contents_of list = (case Contents list of None \<Rightarrow> [] | Some objs \<Rightarrow> objs)"

text \<open>
  The loop of \<open>listPrefixText\<close> over \<open>list.Contents || []\<close>: an object without a key is
  skipped; a failed fetch throws and the sections so far are lost.
\<close>

fun fetch_listed :: "env \<Rightarrow> s3_object list \<Rightarrow> (error + jstring list) \<times> call list" where
  "fetch_listed env [] = (Inr [], [])"
| "fetch_listed env (obj # objs) =
     (case Key obj of
        None \<Rightarrow> fetch_listed env objs
      | Some k \<Rightarrow>
          if k = [] then fetch_listed env objs
          else (case get_text env k of
                  Inl e \<Rightarrow> (Inl e, [GetObject k])
                | Inr text \<Rightarrow>
                    (case fetch_listed env objs of
                       (Inl e, t) \<Rightarrow> (Inl e, GetObject k # t)
                     | (Inr out, t) \<Rightarrow>
                         (Inr (file_section k (truncate_default text) # out), GetObject k # t))))"

definition listPrefixText :: "env \<Rightarrow> jstring \<Rightarrow> (error + jstring) \<times> call list" where
  "listPrefixText env prefix =
     (case s3_list env prefix of
        Inl e \<Rightarrow> (Inl e, [ListObjects prefix])
      | Inr list \<Rightarrow>
          (case fetch_listed env (contents_of list) of
             (Inl e, t) \<Rightarrow> (Inl e, ListObjects prefix # t)
           | (Inr out, t) \<Rightarrow> (Inr (join (lit ''\<newline>'') out), ListObjects prefix # t)))"

text \<open>
  Lines 88 to 90, for a truthy \<open>run\<close>: the two listings, then
  \<open>[tests, sonar].filter(Boolean).join("\n")\<close>.
\<close>

definition list_both :: "env \<Rightarrow> jstring \<Rightarrow> (error + jstring) \<times> call list" where
  "list_both env run =
     (case listPrefixText env (lit ''test-results/'' @ run @ lit ''/'') of
        (Inl e, t) \<Rightarrow> (Inl e, t)
      | (Inr tests, t) \<Rightarrow>
          (case listPrefixText env (lit ''sonarqube/'' @ run @ lit ''/'') of
             (Inl e, t') \<Rightarrow> (Inl e, t @ t')
           | (Inr sonar, t') \<Rightarrow>
               (Inr (join (lit ''\<newline>'') (filter (\<lambda>s. s \<noteq> []) [tests, sonar])), t @ t')))"

text \<open>Lines 93 and 94: the triggering object alone.\<close>

definition fetch_single :: "env \<Rightarrow> jstring \<Rightarrow> (error + jstring) \<times> call list" where
  "fetch_single env key =
     (case get_text env key of
        Inl e \<Rightarrow> (Inl e, [GetObject key])
      | Inr text \<Rightarrow> (Inr (file_section key (truncate_default text)), [GetObject key]))"

text \<open>
  Lines 85 to 96: \<open>collected\<close> after the \<open>try\<close>. A read error leaves it as it was, the
  empty string.
\<close>

definition collect :: "env \<Rightarrow> jstring \<Rightarrow> jstring option \<Rightarrow> jstring \<times> call list" where
  "collect env key run =
     (case (case run of
              None \<Rightarrow> (Inr [], [])
            | Some r \<Rightarrow> if r \<noteq> [] then list_both env r else (Inr [], [])) of
        (Inl e, t) \<Rightarrow> ([], t)
      | (Inr collected, t) \<Rightarrow>
          if collected \<noteq> [] then (collected, t)
          else (case fetch_single env key of
                  (Inl e, t') \<Rightarrow> ([], t @ t')
                | (Inr text, t') \<Rightarrow> (text, t @ t')))"

section \<open>Summary and delivery\<close>

text \<open>The report of the \<open>catch\<close> branch, line 113.\<close>

definition fallback_report :: "jstring \<Rightarrow> jstring" where
  "fallback_report collected =
     lit ''Bedrock failed to generate a report.\<newline>\<newline>''
     @ (if collected \<noteq> [] then collected else lit ''(no CI data captured)'')"

text \<open>Line 109: \<open>decoded?.results?.[0]?.outputText ?? ""\<close>.\<close>

definition output_text :: "json \<Rightarrow> json" where
  "output_text decoded =
     (case chain (property (lit ''outputText''))
             (chain index0 (chain (property (lit ''results'')) (Some decoded))) of
        None \<Rightarrow> JStr []
      | Some JNull \<Rightarrow> JStr []
      | Some v \<Rightarrow> v)"

text \<open>The prompt of line 100: \<open>buildPrompt(collected || "(no CI data found)")\<close>.\<close>

definition prompt_of :: "jstring \<Rightarrow> jstring" where
  "prompt_of collected =
     buildPrompt (if collected \<noteq> [] then collected else lit ''(no CI data found)'')"

text \<open>
  \<open>String(v)\<close> raises a \<open>TypeError\<close> on a parsed value: an object with a property
  \<open>toString\<close> of its own, which is not a function and hides the inherited one, has no
  primitive value; an array is printed by joining the strings of its elements (\<open>null\<close>
  gives the empty string), so it raises when one of them does.
\<close>

fun to_string_throws :: "json \<Rightarrow> bool" where
  "to_string_throws (JArr xs) = list_ex to_string_throws xs"
| "to_string_throws (JObj kvs) = (map_of kvs (lit ''toString'') \<noteq> None)"
| "to_string_throws v = False"

text \<open>
  Line 110, inside the \<open>try\<close>: \<open>log("Bedrock OK, chars:", String(report.length))\<close> raises.
  \<open>report\<close> is not \<open>null\<close> here. The \<open>length\<close> of a string or an array is a number, a
  number or a boolean has none (\<open>undefined\<close>); the \<open>length\<close> of an object is its own
  property of that name, any value.
\<close>

fun length_log_throws :: "json \<Rightarrow> bool" where
  "length_log_throws (JObj kvs) =
     (case map_of kvs (lit ''length'') of
        None \<Rightarrow> False
      | Some v \<Rightarrow> to_string_throws v)"
| "length_log_throws report = False"

text \<open>
  Lines 98 to 114: \<open>report\<close> after the \<open>try\<close>. The call raising, the response not
  parsing and the log of line 110 raising all end in the \<open>catch\<close> branch.
\<close>

definition summarise :: "env \<Rightarrow> jstring \<Rightarrow> json \<times> call list" where
  "summarise env collected =
     (case bedrock_send env (prompt_of collected) of
        Inl e \<Rightarrow> (JStr (fallback_report collected), [InvokeModel (prompt_of collected)])
      | Inr text \<Rightarrow>
          (case JSON_parse env text of
             None \<Rightarrow> (JStr (fallback_report collected), [InvokeModel (prompt_of collected)])
           | Some decoded \<Rightarrow>
               if length_log_throws (output_text decoded)
               then (JStr (fallback_report collected), [InvokeModel (prompt_of collected)])
               else (output_text decoded, [InvokeModel (prompt_of collected)])))"

text \<open>The body of line 117: \<open>report || "(empty report)"\<close>.\<close>

definition body_of :: "json \<Rightarrow> json" where
  "body_of report = (if truthy report then report else JStr (lit ''(empty report)''))"

text \<open>\<open>sendEmail(subject, bodyText)\<close>: one call of the mail service.\<close>

definition sendEmail :: "env \<Rightarrow> jstring \<Rightarrow> json \<Rightarrow> (error + unit) \<times> call list" where
  "sendEmail env subject bodyText = (ses_send env subject bodyText, [SendEmail subject bodyText])"

text \<open>
  Lines 82 to 118, the body of the inner loop once \<open>key\<close> is known: the calls it makes.
  The error of \<open>sendEmail\<close> is caught and logged.
\<close>

definition process_key :: "env \<Rightarrow> jstring \<Rightarrow> call list" where
  "process_key env key =
     (let run = runOf key;
          (collected, t1) = collect env key run;
          (report, t2) = summarise env collected;
          subject = subject_of (SUBJECT_PREFIX env) run;
          (sent, t3) = sendEmail env subject (body_of report)
      in t1 @ t2 @ t3)"

section \<open>The handler\<close>

text \<open>Line 78: \<open>rec.Sns?.Message ? JSON.parse(rec.Sns.Message) : null\<close>.\<close>

definition message_of :: "env \<Rightarrow> sns_record \<Rightarrow> error + json" where
  "message_of env rec =
     (case Sns rec of
        None \<Rightarrow> Inr JNull
      | Some s \<Rightarrow>
          (case Message s of
             None \<Rightarrow> Inr JNull
           | Some m \<Rightarrow>
               if m = [] then Inr JNull
               else (case JSON_parse env m of
                       None \<Rightarrow> Inl SyntaxError
                     | Some v \<Rightarrow> Inr v)))"

text \<open>Line 79: \<open>msg?.Records || []\<close>.\<close>

definition s3Recs :: "json \<Rightarrow> json" where
  "s3Recs msg =
     (case chain (property (lit ''Records'')) (Some msg) of
        None \<Rightarrow> JArr []
      | Some v \<Rightarrow> if truthy v then v else JArr [])"

text \<open>
  What \<open>for (const r of v)\<close> iterates: the elements of an array, the code points of a
  string; any other value is not iterable.
\<close>

fun code_points :: "jstring \<Rightarrow> jstring list" where
  "code_points (c # d # cs) =
     (if 0xD800 \<le> c \<and> c \<le> 0xDBFF \<and> 0xDC00 \<le> d \<and> d \<le> 0xDFFF
      then [c, d] # code_points cs
      else [c] # code_points (d # cs))"
| "code_points [c] = [[c]]"
| "code_points [] = []"

fun elements :: "json \<Rightarrow> error + json list" where
  "elements (JArr xs) = Inr xs"
| "elements (JStr s) = Inr (map JStr (code_points s))"
| "elements v = Inl TypeError"

text \<open>\<open>r.s3.object.key\<close>, which must have the method \<open>replace\<close>: a string.\<close>

definition raw_key :: "json \<Rightarrow> error + jstring" where
  "raw_key r =
     (case read_member (lit ''s3'') (Some r) of
        Inl e \<Rightarrow> Inl e
      | Inr a \<Rightarrow>
          (case read_member (lit ''object'') a of
             Inl e \<Rightarrow> Inl e
           | Inr b \<Rightarrow>
               (case read_member (lit ''key'') b of
                  Inl e \<Rightarrow> Inl e
                | Inr (Some (JStr raw)) \<Rightarrow> Inr raw
                | Inr _ \<Rightarrow> Inl TypeError)))"

text \<open>Line 81: \<open>decodeURIComponent(r.s3.object.key.replace(/\+/g, " "))\<close>.\<close>

definition record_key :: "json \<Rightarrow> error + jstring" where
  "record_key r =
     (case raw_key r of
        Inl e \<Rightarrow> Inl e
      | Inr raw \<Rightarrow>
          (case decodeURIComponent (replace_plus raw) of
             None \<Rightarrow> Inl URIError
           | Some key \<Rightarrow> Inr key))"

text \<open>
  The inner loop, lines 80 to 119. Line 81 is outside every \<open>try\<close>: what it throws leaves
  the loop and the handler.
\<close>

fun inner_loop :: "env \<Rightarrow> json list \<Rightarrow> (error + unit) \<times> call list" where
  "inner_loop env [] = (Inr (), [])"
| "inner_loop env (r # rs) =
     (case record_key r of
        Inl e \<Rightarrow> (Inl e, [])
      | Inr key \<Rightarrow>
          (case inner_loop env rs of
             (res, t) \<Rightarrow> (res, process_key env key @ t)))"

text \<open>One outer record, lines 78 to 119.\<close>

definition process_record :: "env \<Rightarrow> sns_record \<Rightarrow> (error + unit) \<times> call list" where
  "process_record env rec =
     (case message_of env rec of
        Inl e \<Rightarrow> (Inl e, [])
      | Inr msg \<Rightarrow>
          (case elements (s3Recs msg) of
             Inl e \<Rightarrow> (Inl e, [])
           | Inr rs \<Rightarrow> inner_loop env rs))"

fun outer_loop :: "env \<Rightarrow> sns_record list \<Rightarrow> (error + unit) \<times> call list" where
  "outer_loop env [] = (Inr (), [])"
| "outer_loop env (rec # recs) =
     (case process_record env rec of
        (Inl e, t) \<Rightarrow> (Inl e, t)
      | (Inr u, t) \<Rightarrow>
          (case outer_loop env recs of
             (res, t') \<Rightarrow> (res, t @ t')))"

text \<open>
  \<open>handler(event)\<close>: what the promise settles to (\<open>Inl\<close>: rejected with the error) and
  the service calls made. \<open>event?.Records || []\<close> is the list of outer records.
\<close>

definition handler :: "env \<Rightarrow> event \<Rightarrow> (error + result) \<times> call list" where
  "handler env event =
     (case outer_loop env (case Records event of None \<Rightarrow> [] | Some recs \<Rightarrow> recs) of
        (Inl e, t) \<Rightarrow> (Inl e, t)
      | (Inr u, t) \<Rightarrow> (Inr \<lparr>ok = True\<rparr>, t))"

section \<open>Notions of the specification\<close>

text \<open>The keys of a listing that the loop of \<open>listPrefixText\<close> fetches, in listing order.\<close>

fun listed_keys :: "s3_object list \<Rightarrow> jstring list" where
  "listed_keys [] = []"
| "listed_keys (obj # objs) =
     (case Key obj of
        None \<Rightarrow> listed_keys objs
      | Some k \<Rightarrow> if k = [] then listed_keys objs else k # listed_keys objs)"

text \<open>
  The \<open>try\<close> of lines 99 to 110 raises: the service call raises, the text of its response
  is not JSON, or the length of the report cannot be printed for the log.
\<close>

definition summary_fails :: "env \<Rightarrow> jstring \<Rightarrow> bool" where
  "summary_fails env collected =
     (case bedrock_send env (prompt_of collected) of
        Inl e \<Rightarrow> True
      | Inr text \<Rightarrow>
          (case JSON_parse env text of
             None \<Rightarrow> True
           | Some decoded \<Rightarrow> length_log_throws (output_text decoded)))"

text \<open>
  A response of the shape the interface of the model describes: a JSON value whose
  \<open>results[0].outputText\<close> is the generated text, a string.
\<close>

definition expected_response :: "json \<Rightarrow> bool" where
  "expected_response decoded =
     (case chain (property (lit ''outputText''))
             (chain index0 (chain (property (lit ''results'')) (Some decoded))) of
        Some (JStr s) \<Rightarrow> True
      | _ \<Rightarrow> False)"

text \<open>
  A failure of the summary-generation call in the widest sense of the specification: the
  service call raises (network, quota, access denied), or its response is malformed, that
  is, not JSON or not of the expected shape.
\<close>

definition generation_fails :: "env \<Rightarrow> jstring \<Rightarrow> bool" where
  "generation_fails env collected =
     (case bedrock_send env (prompt_of collected) of
        Inl e \<Rightarrow> True
      | Inr text \<Rightarrow>
          (case JSON_parse env text of
             None \<Rightarrow> True
           | Some decoded \<Rightarrow> \<not> expected_response decoded))"

section \<open>An example invocation\<close>

text \<open>
  A bucket with the artifacts of run \<open>run1\<close> and a few other objects, a model that
  answers, and a mail service that accepts. \<open>demo_parse\<close> is \<open>JSON.parse\<close> on the texts
  of the example: the message and the response, which it parses, and every other text used
  below (\<open>not json\<close>), which is not JSON.
\<close>

definition demo_message :: jstring where
  \<open>demo_message = lit ''{"Records":[{"s3":{"object":{"key":"test-results/run1/unit.xml"}}}]}''\<close>

definition demo_message_value :: json where
  "demo_message_value =
     JObj [(lit ''Records'',
       JArr [JObj [(lit ''s3'',
         JObj [(lit ''object'',
           JObj [(lit ''key'', JStr (lit ''test-results/run1/unit.xml''))])])]])]"

definition demo_response :: jstring where
  \<open>demo_response = lit ''{"results":[{"outputText":"All tests passed."}]}''\<close>

definition demo_response_value :: json where
  "demo_response_value =
     JObj [(lit ''results'', JArr [JObj [(lit ''outputText'', JStr (lit ''All tests passed.''))]])]"

definition demo_parse :: "jstring \<Rightarrow> json option" where
  "demo_parse text =
     (if text = demo_message then Some demo_message_value
      else if text = demo_response then Some demo_response_value
      else None)"

definition demo_objects :: "(jstring \<times> body) list" where
  "demo_objects =
     [(lit ''test-results/run1/unit.xml'', Bytes (lit ''2 tests, 0 failures'')),
      (lit ''test-results/run1/e2e.xml'', Transformable (Inr (lit ''1 test, 1 failure''))),
      (lit ''sonarqube/run1/scan.log'', Readable (Inr (lit ''no issues''))),
      (lit ''test-results/run2/unit.xml'', Bytes (lit ''3 tests'')),
      (lit ''test-results/run 1/a+b.xml'', Bytes (lit ''4 tests'')),
      (lit ''unit.xml'', Bytes (lit ''1 test'')),
      (lit ''a//b'', NoBody)]"

definition demo_listing :: "jstring \<Rightarrow> error + list_output" where
  "demo_listing prefix =
     (if prefix = lit ''test-results/run1/''
      then Inr \<lparr>Contents = Some [\<lparr>Key = Some (lit ''test-results/run1/unit.xml'')\<rparr>,
                                   \<lparr>Key = None\<rparr>,
                                   \<lparr>Key = Some (lit ''test-results/run1/e2e.xml'')\<rparr>]\<rparr>
      else if prefix = lit ''sonarqube/run1/''
      then Inr \<lparr>Contents = Some [\<lparr>Key = Some (lit ''sonarqube/run1/scan.log'')\<rparr>]\<rparr>
      else Inr \<lparr>Contents = None\<rparr>)"

definition demo_env :: env where
  "demo_env =
     \<lparr>SUBJECT_PREFIX = lit ''[CI]'',
      JSON_parse = demo_parse,
      s3_list = demo_listing,
      s3_get = (\<lambda>key. case map_of demo_objects key of
                          None \<Rightarrow> Inl (ServiceError (lit ''NoSuchKey''))
                        | Some b \<Rightarrow> Inr b),
      bedrock_send = (\<lambda>prompt. Inr demo_response),
      ses_send = (\<lambda>subject bodyText. Inr ())\<rparr>"

text \<open>The text of each listed object of \<open>run1\<close>.\<close>

definition demo_text :: "jstring \<Rightarrow> jstring" where
  "demo_text k =
     (if k = lit ''test-results/run1/unit.xml'' then lit ''2 tests, 0 failures''
      else if k = lit ''test-results/run1/e2e.xml'' then lit ''1 test, 1 failure''
      else lit ''no issues'')"

text \<open>The same, with a model that refuses the call.\<close>

definition denied_env :: env where
  "denied_env = demo_env\<lparr>bedrock_send := (\<lambda>prompt. Inl (ServiceError (lit ''AccessDenied'')))\<rparr>"

text \<open>The same, with a model whose response is not JSON.\<close>

definition garbled_env :: env where
  "garbled_env = demo_env\<lparr>bedrock_send := (\<lambda>prompt. Inr (lit ''<html>Bad Gateway</html>''))\<rparr>"

text \<open>The same, with a model whose response is the empty object \<open>{}\<close>.\<close>

definition silent_env :: env where
  "silent_env =
     demo_env\<lparr>bedrock_send := (\<lambda>prompt. Inr (lit ''{}'')),
              JSON_parse := (\<lambda>text. if text = lit ''{}'' then Some (JObj []) else demo_parse text)\<rparr>"

text \<open>
  The same, with a model whose response has, for \<open>outputText\<close>, an object whose
  \<open>length\<close> cannot be printed.
\<close>

definition unprintable_response :: jstring where
  \<open>unprintable_response = lit ''{"results":[{"outputText":{"length":{"toString":0}}}]}''\<close>

definition unprintable_value :: json where
  "unprintable_value =
     JObj [(lit ''results'',
       JArr [JObj [(lit ''outputText'',
         JObj [(lit ''length'', JObj [(lit ''toString'', JNum 0)])])]])]"

definition unprintable_env :: env where
  "unprintable_env =
     demo_env\<lparr>bedrock_send := (\<lambda>prompt. Inr unprintable_response),
              JSON_parse := (\<lambda>text. if text = unprintable_response then Some unprintable_value
                                     else demo_parse text)\<rparr>"

text \<open>An inner record with the given raw key.\<close>

definition s3_record :: "jstring \<Rightarrow> json" where
  "s3_record raw =
     JObj [(lit ''s3'', JObj [(lit ''object'', JObj [(lit ''key'', JStr raw)])])]"

text \<open>An outer record with the given message.\<close>

definition record_with :: "jstring \<Rightarrow> sns_record" where
  "record_with m = \<lparr>Sns = Some \<lparr>Message = Some m\<rparr>\<rparr>"

lemmas demo_defs = demo_env_def denied_env_def garbled_env_def silent_env_def unprintable_env_def
  demo_listing_def demo_objects_def demo_parse_def
  demo_message_def demo_response_def demo_message_value_def demo_response_value_def
  record_with_def

section \<open>Segments and the grouping key\<close>

lemma split_not_Nil: "split sep s \<noteq> []"
  by (induction s) (auto split: list.splits)

lemma length_split: "length (split sep s) = Suc (count_list s sep)"
  by (induction s) (auto split: list.splits simp: split_not_Nil)

lemma join_split: "join [sep] (split sep s) = s"
proof (induction s)
  case Nil
  show ?case by simp
next
  case (Cons c cs)
  obtain seg segs where sp: "split sep cs = seg # segs"
    using split_not_Nil [of sep cs] by (cases "split sep cs") auto
  show ?case
  proof (cases "c = sep")
    case True
    with Cons sp show ?thesis by simp
  next
    case False
    with Cons sp show ?thesis by (cases segs) auto
  qed
qed

lemma split_segments_free: "seg \<in> set (split sep s) \<Longrightarrow> sep \<notin> set seg"
proof (induction s arbitrary: seg)
  case Nil
  then show ?case by simp
next
  case (Cons c cs)
  then show ?case
    by (cases "split sep cs") (auto split: if_splits)
qed

lemma split_free: "sep \<notin> set a \<Longrightarrow> split sep a = [a]"
  by (induction a) auto

lemma split_append: "sep \<notin> set a \<Longrightarrow> split sep (a @ sep # rest) = a # split sep rest"
  by (induction a) auto

text \<open>A key \<open>a/b/rest\<close> has the grouping key \<open>b\<close>.\<close>

lemma runOf_between:
  "0x2F \<notin> set a \<Longrightarrow> 0x2F \<notin> set b \<Longrightarrow> runOf (a @ 0x2F # b @ 0x2F # rest) = Some b"
  by (simp add: runOf_def split_append split_not_Nil Suc_le_eq numeral_3_eq_3 length_split)

text \<open>
  C3. The segments of a key are what splitting on \<open>/\<close> gives: joined by \<open>/\<close> they are
  the key again, and none contains \<open>/\<close>. A key of at least three segments has its second
  segment as grouping key; a key of fewer than three segments has none.
\<close>

theorem runOf_second_segment:
  "(3 \<le> length (split 0x2F key) \<longrightarrow> runOf key = Some (split 0x2F key ! 1))
   \<and> (length (split 0x2F key) < 3 \<longrightarrow> runOf key = None)
   \<and> join [0x2F] (split 0x2F key) = key
   \<and> (\<forall>seg \<in> set (split 0x2F key). 0x2F \<notin> set seg)"
  by (simp add: runOf_def join_split split_segments_free)

theorem runOf_second_segment_witness:
  "3 \<le> length (split 0x2F (lit ''test-results/run1/unit.xml''))
   \<and> runOf (lit ''test-results/run1/unit.xml'') = Some (lit ''run1'')
   \<and> length (split 0x2F (lit ''unit.xml'')) < 3
   \<and> runOf (lit ''unit.xml'') = None"
  using runOf_second_segment [of "lit ''test-results/run1/unit.xml''"]
        runOf_second_segment [of "lit ''unit.xml''"]
  by (simp add: lit_def)

section \<open>Truncation\<close>

lemma digit_unat: "n < 10 \<Longrightarrow> unat (48 + of_nat n :: 16 word) = 48 + n"
proof -
  assume n: "n < 10"
  have "(48 + of_nat n :: 16 word) = of_nat (48 + n)" by simp
  then have "unat (48 + of_nat n :: 16 word) = (48 + n) mod 2 ^ 16"
    by (simp only: unat_of_nat) simp
  with n show ?thesis by simp
qed

lemma digits_value_snoc: "digits_value (ds @ [c]) = 10 * digits_value ds + (unat c - 48)"
  by (simp add: digits_value_def)

lemma digits_value_show_nat: "digits_value (show_nat n) = n"
proof (induction n rule: show_nat.induct)
  case (1 n)
  show ?case
  proof (cases "n < 10")
    case True
    then show ?thesis
      by (subst show_nat.simps) (simp add: digits_value_def digit_unat)
  next
    case False
    then have "digits_value (show_nat (n div 10)) = n div 10"
      using 1 by simp
    with False show ?thesis
      by (subst show_nat.simps) (simp add: digits_value_snoc digit_unat)
  qed
qed

text \<open>
  C4. A text longer than the ceiling is cut to exactly the first \<open>mx\<close> code units, followed
  by the marker, whose digits denote exactly the number of code units left out; a text at
  or under the ceiling comes back unchanged. The ceiling of every call is 60000.
\<close>

theorem truncate_exact:
  "(mx < length s \<longrightarrow>
      truncate_text s mx
        = take mx s @ lit ''\<newline>...[truncated '' @ show_nat (length s - mx) @ lit '' chars]''
      \<and> length (take mx s) = mx
      \<and> digits_value (show_nat (length s - mx)) = length (drop mx s))
   \<and> (length s \<le> mx \<longrightarrow> truncate_text s mx = s)
   \<and> truncate_default s = truncate_text s 60000"
  by (simp add: truncate_text_def truncate_default_def digits_value_show_nat)

theorem truncate_exact_witness:
  "(4::nat) < length (lit ''0123456789abcdef'')
   \<and> truncate_text (lit ''0123456789abcdef'') 4 = lit ''0123\<newline>...[truncated 12 chars]''
   \<and> length (lit ''abc'') \<le> (4::nat)
   \<and> truncate_text (lit ''abc'') 4 = lit ''abc''"
  using truncate_exact [of 4 "lit ''0123456789abcdef''"] truncate_exact [of 4 "lit ''abc''"]
  by (simp add: lit_def show_nat.simps)

section \<open>The subject line\<close>

lemma trim_snoc_space:
  assumes c: "is_space c"
  shows "trim (s @ [c]) = trim s"
proof (cases "\<forall>x \<in> set s. is_space x")
  case True
  then have a: "dropWhile is_space s = []" by simp
  from True c have b: "dropWhile is_space (s @ [c]) = []" by simp
  show ?thesis unfolding trim_def a b ..
next
  case False
  then obtain x where "x \<in> set s" "\<not> is_space x" by auto
  then have "dropWhile is_space (s @ [c]) = dropWhile is_space s @ [c]"
    by (rule dropWhile_append1)
  with c show ?thesis by (simp add: trim_def)
qed

lemma is_space_space: "is_space 0x20"
  by (simp add: is_space_def)

lemma trim_append_space: "trim (s @ lit '' '') = trim s"
  by (simp add: lit_def trim_snoc_space is_space_space)

lemma subject_of_absent:
  "\<not> truthy_run run \<Longrightarrow>
   subject_of prefix run = trim ((if prefix \<noteq> [] then prefix @ lit '' '' else []) @ lit ''CI Report'')"
proof -
  assume "\<not> truthy_run run"
  then have "subject_of prefix run
      = trim (((if prefix \<noteq> [] then prefix @ lit '' '' else []) @ lit ''CI Report'') @ lit '' '')"
    by (cases run) (simp_all add: subject_of_def lit_def)
  then show ?thesis by (simp only: trim_append_space)
qed

lemma subject_of_present:
  "r \<noteq> [] \<Longrightarrow>
   subject_of prefix (Some r)
     = trim ((if prefix \<noteq> [] then prefix @ lit '' '' else []) @ lit ''CI Report'' @ lit '' - '' @ r)"
  by (simp add: subject_of_def lit_def)

text \<open>
  C5. The subject is the prefix and a space (when the prefix is not empty), then
  \<open>CI Report\<close>, then \<open> - \<close> and the grouping key (when there is one; an empty grouping
  key counts as none), trimmed. With the prefix \<open>[CI]\<close> and the group \<open>vpc\<close> it is
  \<open>[CI] CI Report - vpc\<close>; with neither it is \<open>CI Report\<close>.
\<close>

theorem subject_composed:
  "subject_of prefix run
     = trim ((if prefix \<noteq> [] then prefix @ lit '' '' else [])
             @ lit ''CI Report''
             @ (case run of
                  None \<Rightarrow> []
                | Some r \<Rightarrow> if r \<noteq> [] then lit '' - '' @ r else []))
   \<and> subject_of (lit ''[CI]'') (Some (lit ''vpc'')) = lit ''[CI] CI Report - vpc''
   \<and> subject_of [] None = lit ''CI Report''"
proof (intro conjI)
  show "subject_of prefix run
     = trim ((if prefix \<noteq> [] then prefix @ lit '' '' else [])
             @ lit ''CI Report''
             @ (case run of
                  None \<Rightarrow> []
                | Some r \<Rightarrow> if r \<noteq> [] then lit '' - '' @ r else []))"
  proof (cases "truthy_run run")
    case True
    then obtain r where "run = Some r" "r \<noteq> []" by (cases run) auto
    then show ?thesis by (simp add: subject_of_present)
  next
    case False
    then show ?thesis by (cases run) (simp_all add: subject_of_absent)
  qed
  show "subject_of (lit ''[CI]'') (Some (lit ''vpc'')) = lit ''[CI] CI Report - vpc''"
    by (simp add: subject_of_def lit_def trim_def is_space_def)
  show "subject_of [] None = lit ''CI Report''"
    by (simp add: subject_of_def lit_def trim_def is_space_def)
qed

theorem subject_composed_witness:
  "subject_of (lit ''[CI]'') (Some (lit ''run 7'')) = lit ''[CI] CI Report - run 7''
   \<and> subject_of (lit ''[CI]'') None = lit ''[CI] CI Report''
   \<and> subject_of [] (Some []) = lit ''CI Report''"
  using subject_composed [of "lit ''[CI]''" "Some (lit ''run 7'')"]
        subject_composed [of "lit ''[CI]''" None] subject_composed [of "[]" "Some []"]
  by (simp add: lit_def trim_def is_space_def)

section \<open>Aggregation: order and fallback\<close>

lemma file_section_not_Nil: "file_section k text \<noteq> []"
  by (simp add: file_section_def lit_def)

lemma join_append:
  "xs \<noteq> [] \<Longrightarrow> ys \<noteq> [] \<Longrightarrow> join sep (xs @ ys) = join sep xs @ sep @ join sep ys"
proof (induction sep xs rule: join.induct)
  case (1 sep)
  then show ?case by simp
next
  case (2 sep x)
  then show ?case by (cases ys) simp_all
next
  case (3 sep x y zs)
  then show ?case by simp
qed

lemma join_eq_Nil:
  "\<forall>s \<in> set out. s \<noteq> [] \<Longrightarrow> join sep out = [] \<longleftrightarrow> out = []"
  by (induction sep out rule: join.induct) auto

text \<open>Every fetch of the loop succeeding, it returns one section for each listed key.\<close>

lemma fetch_listed_all:
  "\<forall>k \<in> set (listed_keys objs). get_text env k = Inr (text k) \<Longrightarrow>
   fetch_listed env objs
     = (Inr (map (\<lambda>k. file_section k (truncate_default (text k))) (listed_keys objs)),
        map GetObject (listed_keys objs))"
  by (induction objs) (auto split: option.splits)

text \<open>What the loop returns has a section, not empty, for every fetch it made.\<close>

lemma fetch_listed_sections:
  "fetch_listed env objs = (Inr out, t) \<Longrightarrow>
   [] \<notin> set out \<and> length t = length out"
proof (induction objs arbitrary: out t)
  case Nil
  then show ?case by simp
next
  case (Cons obj objs)
  show ?case
  proof (cases "Key obj")
    case None
    with Cons show ?thesis by simp
  next
    case (Some k)
    show ?thesis
    proof (cases "k = []")
      case True
      with Some Cons show ?thesis by simp
    next
      case False
      with Some Cons.prems obtain c out' t' where
        g: "get_text env k = Inr c" and f: "fetch_listed env objs = (Inr out', t')"
        and eq_out: "out = file_section k (truncate_default c) # out'"
        and eq_t: "t = GetObject k # t'"
        by (auto split: sum.splits prod.splits)
      from Cons.IH [OF f] eq_out eq_t show ?thesis
        using file_section_not_Nil [of k "truncate_default c"] by auto
    qed
  qed
qed

lemma listPrefixText_empty:
  "listPrefixText env prefix = (Inr [], t) \<Longrightarrow> t = [ListObjects prefix]"
proof -
  assume a: "listPrefixText env prefix = (Inr [], t)"
  then obtain list out t' where l: "s3_list env prefix = Inr list"
    and f: "fetch_listed env (contents_of list) = (Inr out, t')"
    and j: "join (lit ''\<newline>'') out = []" and t: "t = ListObjects prefix # t'"
    by (auto simp: listPrefixText_def split: sum.splits prod.splits)
  from fetch_listed_sections [OF f] have n: "\<forall>s \<in> set out. s \<noteq> []" and len: "length t' = length out"
    by auto
  from j join_eq_Nil [OF n] have "out = []" by simp
  with len have "t' = []" by simp
  with t show ?thesis by simp
qed

lemma listPrefixText_all:
  assumes "s3_list env prefix = Inr list"
    and "\<forall>k \<in> set (listed_keys (contents_of list)). get_text env k = Inr (text k)"
  shows "listPrefixText env prefix
     = (Inr (join (lit ''\<newline>'')
               (map (\<lambda>k. file_section k (truncate_default (text k)))
                  (listed_keys (contents_of list)))),
        ListObjects prefix # map GetObject (listed_keys (contents_of list)))"
  using assms(1) fetch_listed_all [OF assms(2)] by (simp add: listPrefixText_def)


text \<open>A listing without a key to fetch gives the empty text, by the one listing call.\<close>

lemma listPrefixText_no_keys:
  assumes "s3_list env prefix = Inr list" and "listed_keys (contents_of list) = []"
  shows "listPrefixText env prefix = (Inr [], [ListObjects prefix])"
proof -
  from assms(2) have "\<forall>k \<in> set (listed_keys (contents_of list)). get_text env k = Inr (id k)"
    by simp
  from listPrefixText_all [OF assms(1) this] assms(2) show ?thesis by simp
qed

lemma collect_absent:
  "\<not> truthy_run run \<Longrightarrow>
   collect env key run
     = (case get_text env key of
          Inl e \<Rightarrow> []
        | Inr c \<Rightarrow> file_section key (truncate_default c),
        [GetObject key])"
  by (cases run) (auto simp: collect_def fetch_single_def split: sum.splits)

lemma list_both_empty:
  assumes "listPrefixText env (lit ''test-results/'' @ r @ lit ''/'') = (Inr [], t1)"
    and "listPrefixText env (lit ''sonarqube/'' @ r @ lit ''/'') = (Inr [], t2)"
  shows "list_both env r
     = (Inr [], [ListObjects (lit ''test-results/'' @ r @ lit ''/''),
                 ListObjects (lit ''sonarqube/'' @ r @ lit ''/'')])"
  using assms listPrefixText_empty [OF assms(1)] listPrefixText_empty [OF assms(2)]
  by (simp add: list_both_def)

text \<open>
  C6. With no grouping key (\<open>null\<close> or empty), or with both listings returning no
  content, the aggregator fetches exactly one object, the triggering one; the buffer is its
  section when the fetch succeeds. The section is the one the loop over a listing makes for
  the same object.
\<close>

theorem fallback_single_object:
  "(\<not> truthy_run run \<longrightarrow>
      collect env key run
        = (case get_text env key of
             Inl e \<Rightarrow> []
           | Inr c \<Rightarrow> file_section key (truncate_default c),
           [GetObject key]))
   \<and> (r \<noteq> []
        \<and> listPrefixText env (lit ''test-results/'' @ r @ lit ''/'') = (Inr [], t1)
        \<and> listPrefixText env (lit ''sonarqube/'' @ r @ lit ''/'') = (Inr [], t2) \<longrightarrow>
      collect env key (Some r)
        = (case get_text env key of
             Inl e \<Rightarrow> []
           | Inr c \<Rightarrow> file_section key (truncate_default c),
           [ListObjects (lit ''test-results/'' @ r @ lit ''/''),
            ListObjects (lit ''sonarqube/'' @ r @ lit ''/''),
            GetObject key]))
   \<and> (key \<noteq> [] \<and> get_text env key = Inr c \<longrightarrow>
      fetch_listed env [\<lparr>Key = Some key\<rparr>]
        = (Inr [file_section key (truncate_default c)], [GetObject key]))"
proof (intro conjI impI)
  assume "\<not> truthy_run run"
  then show "collect env key run
        = (case get_text env key of
             Inl e \<Rightarrow> []
           | Inr c \<Rightarrow> file_section key (truncate_default c),
           [GetObject key])"
    by (rule collect_absent)
next
  assume a: "r \<noteq> []
        \<and> listPrefixText env (lit ''test-results/'' @ r @ lit ''/'') = (Inr [], t1)
        \<and> listPrefixText env (lit ''sonarqube/'' @ r @ lit ''/'') = (Inr [], t2)"
  then have "list_both env r
     = (Inr [], [ListObjects (lit ''test-results/'' @ r @ lit ''/''),
                 ListObjects (lit ''sonarqube/'' @ r @ lit ''/'')])"
    using list_both_empty by blast
  with a show "collect env key (Some r)
        = (case get_text env key of
             Inl e \<Rightarrow> []
           | Inr c \<Rightarrow> file_section key (truncate_default c),
           [ListObjects (lit ''test-results/'' @ r @ lit ''/''),
            ListObjects (lit ''sonarqube/'' @ r @ lit ''/''),
            GetObject key])"
    by (auto simp: collect_def fetch_single_def split: sum.splits)
next
  assume "key \<noteq> [] \<and> get_text env key = Inr c"
  then show "fetch_listed env [\<lparr>Key = Some key\<rparr>]
        = (Inr [file_section key (truncate_default c)], [GetObject key])"
    by simp
qed

lemma demo_get_text [simp]:
  "get_text demo_env (lit ''unit.xml'') = Inr (lit ''1 test'')"
  "get_text demo_env (lit ''test-results/run2/unit.xml'') = Inr (lit ''3 tests'')"
  "get_text demo_env (lit ''test-results/run1/unit.xml'') = Inr (lit ''2 tests, 0 failures'')"
  "get_text demo_env (lit ''test-results/run1/e2e.xml'') = Inr (lit ''1 test, 1 failure'')"
  "get_text demo_env (lit ''sonarqube/run1/scan.log'') = Inr (lit ''no issues'')"
  "get_text demo_env (lit ''test-results/run 1/a+b.xml'') = Inr (lit ''4 tests'')"
  "get_text demo_env (lit ''a//b'') = Inr []"
  by (simp_all add: get_text_def demo_defs lit_def)

lemma demo_listings [simp]:
  "s3_list demo_env (lit ''test-results/'' @ lit ''run1'' @ lit ''/'')
     = Inr \<lparr>Contents = Some [\<lparr>Key = Some (lit ''test-results/run1/unit.xml'')\<rparr>,
                              \<lparr>Key = None\<rparr>,
                              \<lparr>Key = Some (lit ''test-results/run1/e2e.xml'')\<rparr>]\<rparr>"
  "s3_list demo_env (lit ''sonarqube/'' @ lit ''run1'' @ lit ''/'')
     = Inr \<lparr>Contents = Some [\<lparr>Key = Some (lit ''sonarqube/run1/scan.log'')\<rparr>]\<rparr>"
  "s3_list demo_env (lit ''test-results/'' @ lit ''run2'' @ lit ''/'') = Inr \<lparr>Contents = None\<rparr>"
  "s3_list demo_env (lit ''sonarqube/'' @ lit ''run2'' @ lit ''/'') = Inr \<lparr>Contents = None\<rparr>"
  by (simp_all add: demo_defs lit_def)

lemma demo_listPrefixText_run2:
  "listPrefixText demo_env (lit ''test-results/'' @ lit ''run2'' @ lit ''/'')
     = (Inr [], [ListObjects (lit ''test-results/'' @ lit ''run2'' @ lit ''/'')])"
  "listPrefixText demo_env (lit ''sonarqube/'' @ lit ''run2'' @ lit ''/'')
     = (Inr [], [ListObjects (lit ''sonarqube/'' @ lit ''run2'' @ lit ''/'')])"
  by (simp_all add: listPrefixText_def contents_of_def)

theorem fallback_single_object_witness:
  "\<not> truthy_run None
   \<and> collect demo_env (lit ''unit.xml'') None
       = (file_section (lit ''unit.xml'') (truncate_default (lit ''1 test'')),
          [GetObject (lit ''unit.xml'')])
   \<and> lit ''run2'' \<noteq> []
   \<and> collect demo_env (lit ''test-results/run2/unit.xml'') (Some (lit ''run2''))
       = (file_section (lit ''test-results/run2/unit.xml'') (truncate_default (lit ''3 tests'')),
          [ListObjects (lit ''test-results/'' @ lit ''run2'' @ lit ''/''),
           ListObjects (lit ''sonarqube/'' @ lit ''run2'' @ lit ''/''),
           GetObject (lit ''test-results/run2/unit.xml'')])
   \<and> fetch_listed demo_env [\<lparr>Key = Some (lit ''unit.xml'')\<rparr>]
       = (Inr [file_section (lit ''unit.xml'') (truncate_default (lit ''1 test''))],
          [GetObject (lit ''unit.xml'')])"
  using fallback_single_object [of None demo_env "lit ''unit.xml''" "lit ''run2''"
          "[ListObjects (lit ''test-results/'' @ lit ''run2'' @ lit ''/'')]"
          "[ListObjects (lit ''sonarqube/'' @ lit ''run2'' @ lit ''/'')]" "lit ''1 test''"]
        fallback_single_object [of None demo_env "lit ''test-results/run2/unit.xml''" "lit ''run2''"
          "[ListObjects (lit ''test-results/'' @ lit ''run2'' @ lit ''/'')]"
          "[ListObjects (lit ''sonarqube/'' @ lit ''run2'' @ lit ''/'')]" "lit ''3 tests''"]
  by (simp add: demo_listPrefixText_run2) (simp add: lit_def)


lemma join_sections_eq_Nil:
  "join sep (map (\<lambda>k. file_section k (f k)) ks) = [] \<longleftrightarrow> ks = []"
proof -
  have "\<forall>s \<in> set (map (\<lambda>k. file_section k (f k)) ks). s \<noteq> []"
    by (simp add: file_section_not_Nil)
  from join_eq_Nil [OF this] show ?thesis by simp
qed

lemma join_two_lists:
  "join sep (filter (\<lambda>s. s \<noteq> [])
       [join sep (map (\<lambda>k. file_section k (f k)) ks), join sep (map (\<lambda>k. file_section k (f k)) ks')])
   = join sep (map (\<lambda>k. file_section k (f k)) (ks @ ks'))"
proof (cases "ks = []")
  case True
  then show ?thesis by (simp add: join_sections_eq_Nil)
next
  case False
  show ?thesis
  proof (cases "ks' = []")
    case True
    with False show ?thesis by (simp add: join_sections_eq_Nil)
  next
    case ne: False
    with False show ?thesis by (simp add: join_sections_eq_Nil join_append)
  qed
qed

text \<open>The two listings when they and every fetch succeed.\<close>

lemma list_both_listed:
  assumes "s3_list env (lit ''test-results/'' @ r @ lit ''/'') = Inr l1"
    and "s3_list env (lit ''sonarqube/'' @ r @ lit ''/'') = Inr l2"
    and "\<forall>k \<in> set (listed_keys (contents_of l1) @ listed_keys (contents_of l2)).
           get_text env k = Inr (text k)"
  shows "list_both env r
     = (Inr (join (lit ''\<newline>'')
               (map (\<lambda>k. file_section k (truncate_default (text k)))
                  (listed_keys (contents_of l1) @ listed_keys (contents_of l2)))),
        ListObjects (lit ''test-results/'' @ r @ lit ''/'')
          # map GetObject (listed_keys (contents_of l1))
          @ ListObjects (lit ''sonarqube/'' @ r @ lit ''/'')
          # map GetObject (listed_keys (contents_of l2)))"
proof -
  let ?ks1 = "listed_keys (contents_of l1)" and ?ks2 = "listed_keys (contents_of l2)"
  from assms(3) have g1: "\<forall>k \<in> set ?ks1. get_text env k = Inr (text k)"
    and g2: "\<forall>k \<in> set ?ks2. get_text env k = Inr (text k)"
    by simp_all
  show ?thesis
    unfolding list_both_def listPrefixText_all [OF assms(1) g1] listPrefixText_all [OF assms(2) g2]
    using join_two_lists [of "lit ''\<newline>''" "\<lambda>k. truncate_default (text k)" ?ks1 ?ks2]
    by simp
qed

text \<open>
  C7. When the two listings and the fetches of the listed keys succeed and a key is listed,
  the buffer is the sections of the listed keys joined by a newline, in listing order, those
  of \<open>test-results/\<close> before those of \<open>sonarqube/\<close>; each section begins with the
  delimiter line \<open>--- FILE: key ---\<close> of its key. The calls are made in the same order.
\<close>

theorem aggregation_order:
  assumes "r \<noteq> []"
    and "s3_list env (lit ''test-results/'' @ r @ lit ''/'') = Inr l1"
    and "s3_list env (lit ''sonarqube/'' @ r @ lit ''/'') = Inr l2"
    and "\<forall>k \<in> set (listed_keys (contents_of l1) @ listed_keys (contents_of l2)).
           get_text env k = Inr (text k)"
    and "listed_keys (contents_of l1) @ listed_keys (contents_of l2) \<noteq> []"
  shows "collect env key (Some r)
     = (join (lit ''\<newline>'')
          (map (\<lambda>k. lit ''\<newline>--- FILE: '' @ k @ lit '' ---\<newline>'' @ truncate_default (text k))
             (listed_keys (contents_of l1) @ listed_keys (contents_of l2))),
        ListObjects (lit ''test-results/'' @ r @ lit ''/'')
          # map GetObject (listed_keys (contents_of l1))
          @ ListObjects (lit ''sonarqube/'' @ r @ lit ''/'')
          # map GetObject (listed_keys (contents_of l2)))"
proof -
  let ?sec = "\<lambda>k. file_section k (truncate_default (text k))"
  let ?ks1 = "listed_keys (contents_of l1)" and ?ks2 = "listed_keys (contents_of l2)"
  note both = list_both_listed [OF assms(2) assms(3) assms(4)]
  from assms(5) have "join (lit ''\<newline>'') (map ?sec (?ks1 @ ?ks2)) \<noteq> []"
    using join_sections_eq_Nil [of "lit ''\<newline>''" "\<lambda>k. truncate_default (text k)" "?ks1 @ ?ks2"]
    by simp
  with both assms(1) have "collect env key (Some r)
     = (join (lit ''\<newline>'') (map ?sec (?ks1 @ ?ks2)),
        ListObjects (lit ''test-results/'' @ r @ lit ''/'') # map GetObject ?ks1
          @ ListObjects (lit ''sonarqube/'' @ r @ lit ''/'') # map GetObject ?ks2)"
    by (simp add: collect_def)
  then show ?thesis by (simp add: file_section_def)
qed

theorem aggregation_order_witness:
  "collect demo_env (lit ''test-results/run1/unit.xml'') (Some (lit ''run1''))
     = (lit (''\<newline>--- FILE: test-results/run1/unit.xml ---\<newline>2 tests, 0 failures\<newline>''
             @ ''\<newline>--- FILE: test-results/run1/e2e.xml ---\<newline>1 test, 1 failure\<newline>''
             @ ''\<newline>--- FILE: sonarqube/run1/scan.log ---\<newline>no issues''),
        [ListObjects (lit ''test-results/run1/''),
         GetObject (lit ''test-results/run1/unit.xml''),
         GetObject (lit ''test-results/run1/e2e.xml''),
         ListObjects (lit ''sonarqube/run1/''),
         GetObject (lit ''sonarqube/run1/scan.log'')])"
proof -
  have r: "lit ''run1'' \<noteq> []" by (simp add: lit_def)
  have g: "\<forall>k \<in> set (listed_keys (contents_of
               \<lparr>Contents = Some [\<lparr>Key = Some (lit ''test-results/run1/unit.xml'')\<rparr>,
                                 \<lparr>Key = None\<rparr>,
                                 \<lparr>Key = Some (lit ''test-results/run1/e2e.xml'')\<rparr>]\<rparr>)
             @ listed_keys (contents_of
               \<lparr>Contents = Some [\<lparr>Key = Some (lit ''sonarqube/run1/scan.log'')\<rparr>]\<rparr>)).
           get_text demo_env k = Inr (demo_text k)"
    by (simp add: contents_of_def demo_text_def) (simp add: lit_def)
  have n: "listed_keys (contents_of
               \<lparr>Contents = Some [\<lparr>Key = Some (lit ''test-results/run1/unit.xml'')\<rparr>,
                                 \<lparr>Key = None\<rparr>,
                                 \<lparr>Key = Some (lit ''test-results/run1/e2e.xml'')\<rparr>]\<rparr>)
             @ listed_keys (contents_of
               \<lparr>Contents = Some [\<lparr>Key = Some (lit ''sonarqube/run1/scan.log'')\<rparr>]\<rparr>) \<noteq> []"
    by (simp add: contents_of_def lit_def)
  show ?thesis
    using aggregation_order [OF r demo_listings(1) demo_listings(2) g n, of "lit ''test-results/run1/unit.xml''"]
    by (simp add: contents_of_def demo_text_def truncate_default_def truncate_text_def lit_def)
qed

section \<open>One record: the calls, the prompt, the report and the mail\<close>

lemma summarise_calls: "snd (summarise env c) = [InvokeModel (prompt_of c)]"
  by (simp add: summarise_def split: sum.splits option.splits if_splits)

lemma process_key_calls:
  "process_key env key
     = snd (collect env key (runOf key))
       @ [InvokeModel (prompt_of (fst (collect env key (runOf key)))),
          SendEmail (subject_of (SUBJECT_PREFIX env) (runOf key))
            (body_of (fst (summarise env (fst (collect env key (runOf key))))))]"
proof -
  obtain c t1 where c: "collect env key (runOf key) = (c, t1)"
    by (cases "collect env key (runOf key)")
  obtain report t2 where s: "summarise env c = (report, t2)"
    by (cases "summarise env c")
  from s summarise_calls [of env c] have t2: "t2 = [InvokeModel (prompt_of c)]" by simp
  from c s t2 show ?thesis
    by (simp add: process_key_def sendEmail_def Let_def)
qed

text \<open>
  C9. A key of at least three segments whose second segment is empty has the empty string
  as grouping key, and the handler treats it as it treats no grouping key: the aggregator
  makes the same calls and gives the same buffer, no prefix is listed, the one call is the
  fetch of the triggering object, and the subject has no group suffix.
\<close>

theorem empty_group_as_absent:
  assumes "3 \<le> length (split 0x2F key)" and "split 0x2F key ! 1 = []"
  shows "runOf key = Some []
     \<and> collect env key (runOf key) = collect env key None
     \<and> snd (collect env key (runOf key)) = [GetObject key]
     \<and> subject_of prefix (runOf key) = subject_of prefix None
     \<and> process_key env key
         = [GetObject key,
            InvokeModel (prompt_of (fst (collect env key None))),
            SendEmail (subject_of (SUBJECT_PREFIX env) None)
              (body_of (fst (summarise env (fst (collect env key None)))))]"
proof -
  from assms have run: "runOf key = Some []" by (simp add: runOf_def)
  have same: "collect env key (Some []) = collect env key None"
    by (simp add: collect_def)
  have calls: "snd (collect env key None) = [GetObject key]"
    by (simp add: collect_absent)
  have subj: "subject_of p (Some []) = subject_of p None" for p
    by (simp add: subject_of_def)
  from run same calls subj show ?thesis
    by (simp add: process_key_calls)
qed

theorem empty_group_as_absent_witness:
  "3 \<le> length (split 0x2F (lit ''a//b'')) \<and> split 0x2F (lit ''a//b'') ! 1 = []
   \<and> runOf (lit ''a//b'') = Some []
   \<and> collect demo_env (lit ''a//b'') (runOf (lit ''a//b''))
       = (lit ''\<newline>--- FILE: a//b ---\<newline>'', [GetObject (lit ''a//b'')])
   \<and> subject_of (lit ''[CI]'') (runOf (lit ''a//b'')) = lit ''[CI] CI Report''"
proof -
  have a: "3 \<le> length (split 0x2F (lit ''a//b''))" by (simp add: lit_def)
  have b: "split 0x2F (lit ''a//b'') ! 1 = []" by (simp add: lit_def)
  have c: "collect demo_env (lit ''a//b'') None
       = (lit ''\<newline>--- FILE: a//b ---\<newline>'', [GetObject (lit ''a//b'')])"
    by (simp add: collect_absent file_section_def truncate_default_def truncate_text_def)
       (simp add: lit_def)
  have d: "subject_of (lit ''[CI]'') None = lit ''[CI] CI Report''"
    by (simp add: subject_of_def lit_def trim_def is_space_def)
  note e = empty_group_as_absent [OF a b, of demo_env "lit ''[CI]''"]
  from e have e1: "runOf (lit ''a//b'') = Some []" by (rule conjunct1)
  from e have e2: "collect demo_env (lit ''a//b'') (runOf (lit ''a//b''))
      = collect demo_env (lit ''a//b'') None"
    by (elim conjE)
  from e have e3: "subject_of (lit ''[CI]'') (runOf (lit ''a//b'')) = subject_of (lit ''[CI]'') None"
    by (elim conjE)
  show ?thesis
    unfolding e2 e3 c d using a b e1 by (intro conjI) simp_all
qed

lemma body_of_not_empty: "body_of report \<noteq> JStr []"
  by (cases report) (simp_all add: body_of_def lit_def)

text \<open>
  C10. The calls of one record end with the model call and the mail. The prompt is built
  over the buffer, or over \<open>(no CI data found)\<close> when the buffer is empty, never over the
  empty string; the body of the mail is the report when it is truthy and \<open>(empty report)\<close>
  otherwise, never the empty string. For a report that is a string, as the model's
  \<open>outputText\<close> is, truthy means not empty.
\<close>

theorem body_and_prompt_not_empty:
  "(let collected = fst (collect env key (runOf key));
        buffer = (if collected = [] then lit ''(no CI data found)'' else collected);
        report = fst (summarise env collected);
        bodyText = (if truthy report then report else JStr (lit ''(empty report)''))
    in process_key env key
         = snd (collect env key (runOf key))
           @ [InvokeModel (buildPrompt buffer),
              SendEmail (subject_of (SUBJECT_PREFIX env) (runOf key)) bodyText]
       \<and> buffer \<noteq> []
       \<and> bodyText \<noteq> JStr []
       \<and> (\<forall>s. report = JStr s \<longrightarrow>
             bodyText = (if s = [] then JStr (lit ''(empty report)'') else JStr s)))"
proof -
  have "body_of report \<noteq> JStr []" for report by (rule body_of_not_empty)
  then have "(if truthy report then report else JStr (lit ''(empty report)'')) \<noteq> JStr []" for report
    by (simp add: body_of_def)
  moreover have "(if c = [] then lit ''(no CI data found)'' else c) \<noteq> []" for c
    by (simp add: lit_def)
  moreover have "prompt_of c = buildPrompt (if c = [] then lit ''(no CI data found)'' else c)" for c
    by (simp add: prompt_of_def)
  ultimately show ?thesis
    unfolding Let_def by (auto simp: process_key_calls body_of_def)
qed


lemma missing_get_text:
  "get_text demo_env (lit ''missing.xml'') = Inl (ServiceError (lit ''NoSuchKey''))"
  "get_text denied_env k = get_text demo_env k"
  "get_text garbled_env k = get_text demo_env k"
  "get_text silent_env k = get_text demo_env k"
  "get_text unprintable_env k = get_text demo_env k"
  by (simp_all add: get_text_def demo_defs lit_def)

lemma demo_prefixes [simp]:
  "SUBJECT_PREFIX demo_env = lit ''[CI]''"
  "SUBJECT_PREFIX denied_env = lit ''[CI]''"
  "SUBJECT_PREFIX garbled_env = lit ''[CI]''"
  "SUBJECT_PREFIX silent_env = lit ''[CI]''"
  "SUBJECT_PREFIX unprintable_env = lit ''[CI]''"
  by (simp_all add: demo_defs)

lemma subject_CI_None [simp]: "subject_of (lit ''[CI]'') None = lit ''[CI] CI Report''"
  by (simp add: subject_of_def lit_def trim_def is_space_def)

lemma runOf_plain [simp]:
  "runOf (lit ''unit.xml'') = None" "runOf (lit ''missing.xml'') = None"
  by (simp_all add: runOf_def lit_def)

theorem body_and_prompt_not_empty_witness:
  "process_key silent_env (lit ''missing.xml'')
     = [GetObject (lit ''missing.xml''),
        InvokeModel (buildPrompt (lit ''(no CI data found)'')),
        SendEmail (lit ''[CI] CI Report'') (JStr (lit ''(empty report)''))]"
proof -
  have c: "collect silent_env (lit ''missing.xml'') None = ([], [GetObject (lit ''missing.xml'')])"
    by (simp add: collect_absent missing_get_text)
  have s: "fst (summarise silent_env []) = JStr []"
    by (simp add: summarise_def silent_env_def demo_env_def output_text_def)
  from body_and_prompt_not_empty [of silent_env "lit ''missing.xml''"] c s show ?thesis
    by (simp add: Let_def)
qed

lemma summarise_fails:
  "summary_fails env collected \<Longrightarrow>
   summarise env collected
     = (JStr (lit ''Bedrock failed to generate a report.\<newline>\<newline>''
              @ (if collected = [] then lit ''(no CI data captured)'' else collected)),
        [InvokeModel (prompt_of collected)])"
  by (auto simp: summary_fails_def summarise_def fallback_report_def
        split: sum.splits option.splits)

lemma body_of_notice:
  "body_of (JStr (lit ''Bedrock failed to generate a report.\<newline>\<newline>'' @ x))
     = JStr (lit ''Bedrock failed to generate a report.\<newline>\<newline>'' @ x)"
  by (simp add: body_of_def lit_def)

text \<open>Whatever raises in the \<open>try\<close> is a failure in the wide sense too.\<close>

lemma summary_fails_generation_fails:
  "summary_fails env collected \<Longrightarrow> generation_fails env collected"
proof -
  have "length_log_throws (output_text decoded) \<Longrightarrow> \<not> expected_response decoded" for decoded
    by (auto simp: output_text_def expected_response_def split: option.splits json.splits)
  then show "summary_fails env collected \<Longrightarrow> generation_fails env collected"
    by (auto simp: summary_fails_def generation_fails_def split: sum.splits option.splits)
qed

text \<open>
  What is left of the wide sense: a response that parses, is not of the expected shape and
  raises nothing. Its report is whatever \<open>results[0].outputText ?? ""\<close> gives.
\<close>

lemma summarise_unexpected:
  "generation_fails env collected \<Longrightarrow> \<not> summary_fails env collected \<Longrightarrow>
   \<exists>text decoded. bedrock_send env (prompt_of collected) = Inr text
      \<and> JSON_parse env text = Some decoded \<and> \<not> expected_response decoded
      \<and> fst (summarise env collected) = output_text decoded"
  by (auto simp: summary_fails_def generation_fails_def summarise_def
        split: sum.splits option.splits)

text \<open>
  C2, as amended. When the \<open>try\<close> of the summary generation raises (the service call
  raises, the response is not JSON, or the length of the report cannot be printed), nothing
  is raised to the caller: the report is the failure notice followed by the whole buffer, or
  by \<open>(no CI data captured)\<close> when the buffer is empty, and the record goes on to the mail
  with that report as its body. A response that parses and raises nothing is no failure,
  whatever its shape: the report is \<open>results[0].outputText ?? ""\<close>; without that field it
  is the empty string, mailed as \<open>(empty report)\<close>, and the buffer is not in it.
\<close>

theorem summary_failure_fallback:
  "(summary_fails env collected \<longrightarrow>
      summarise env collected
        = (JStr (lit ''Bedrock failed to generate a report.\<newline>\<newline>''
                 @ (if collected = [] then lit ''(no CI data captured)'' else collected)),
           [InvokeModel (prompt_of collected)])
      \<and> (collected = fst (collect env key (runOf key)) \<longrightarrow>
           process_key env key
             = snd (collect env key (runOf key))
               @ [InvokeModel (prompt_of collected),
                  SendEmail (subject_of (SUBJECT_PREFIX env) (runOf key))
                    (JStr (lit ''Bedrock failed to generate a report.\<newline>\<newline>''
                           @ (if collected = [] then lit ''(no CI data captured)''
                              else collected)))]))
   \<and> (bedrock_send env (prompt_of collected) = Inr text \<and> JSON_parse env text = Some decoded
        \<and> \<not> length_log_throws (output_text decoded) \<longrightarrow>
      summarise env collected = (output_text decoded, [InvokeModel (prompt_of collected)]))
   \<and> (chain (property (lit ''outputText''))
          (chain index0 (chain (property (lit ''results'')) (Some decoded))) = None \<longrightarrow>
      output_text decoded = JStr [] \<and> \<not> length_log_throws (output_text decoded)
      \<and> body_of (output_text decoded) = JStr (lit ''(empty report)''))"
proof (intro conjI impI)
  assume f: "summary_fails env collected"
  then show s: "summarise env collected
        = (JStr (lit ''Bedrock failed to generate a report.\<newline>\<newline>''
                 @ (if collected = [] then lit ''(no CI data captured)'' else collected)),
           [InvokeModel (prompt_of collected)])"
    by (rule summarise_fails)
  assume eq: "collected = fst (collect env key (runOf key))"
  have "process_key env key
          = snd (collect env key (runOf key))
            @ [InvokeModel (prompt_of collected),
               SendEmail (subject_of (SUBJECT_PREFIX env) (runOf key))
                 (body_of (fst (summarise env collected)))]"
    unfolding eq by (rule process_key_calls)
  then show "process_key env key
             = snd (collect env key (runOf key))
               @ [InvokeModel (prompt_of collected),
                  SendEmail (subject_of (SUBJECT_PREFIX env) (runOf key))
                    (JStr (lit ''Bedrock failed to generate a report.\<newline>\<newline>''
                           @ (if collected = [] then lit ''(no CI data captured)''
                              else collected)))]"
    by (simp only: s fst_conv body_of_notice)
next
  assume "bedrock_send env (prompt_of collected) = Inr text \<and> JSON_parse env text = Some decoded
        \<and> \<not> length_log_throws (output_text decoded)"
  then show "summarise env collected = (output_text decoded, [InvokeModel (prompt_of collected)])"
    by (simp add: summarise_def)
next
  assume n: "chain (property (lit ''outputText''))
          (chain index0 (chain (property (lit ''results'')) (Some decoded))) = None"
  then show e: "output_text decoded = JStr []" by (simp add: output_text_def)
  then show "\<not> length_log_throws (output_text decoded)" by simp
  from e show "body_of (output_text decoded) = JStr (lit ''(empty report)'')"
    by (simp add: body_of_def)
qed

lemma demo_section_unit:
  "file_section (lit ''unit.xml'') (truncate_default (lit ''1 test''))
     = lit ''\<newline>--- FILE: unit.xml ---\<newline>1 test''"
  by (simp add: file_section_def truncate_default_def truncate_text_def lit_def)

lemma demo_collect_unit:
  "collect denied_env (lit ''unit.xml'') None
     = (lit ''\<newline>--- FILE: unit.xml ---\<newline>1 test'', [GetObject (lit ''unit.xml'')])"
  "collect silent_env (lit ''unit.xml'') None
     = (lit ''\<newline>--- FILE: unit.xml ---\<newline>1 test'', [GetObject (lit ''unit.xml'')])"
  "collect unprintable_env (lit ''unit.xml'') None
     = (lit ''\<newline>--- FILE: unit.xml ---\<newline>1 test'', [GetObject (lit ''unit.xml'')])"
  "collect garbled_env (lit ''missing.xml'') None = ([], [GetObject (lit ''missing.xml'')])"
  by (simp_all add: collect_absent missing_get_text demo_section_unit)

lemma silent_parse:
  "bedrock_send silent_env p = Inr (lit ''{}'')" "JSON_parse silent_env (lit ''{}'') = Some (JObj [])"
  by (simp_all add: silent_env_def demo_env_def)

lemma unprintable_fails: "summary_fails unprintable_env c"
  by (simp add: summary_fails_def unprintable_env_def demo_env_def unprintable_value_def
        output_text_def)

theorem summary_failure_fallback_witness:
  "summary_fails denied_env (lit ''\<newline>--- FILE: unit.xml ---\<newline>1 test'')
   \<and> process_key denied_env (lit ''unit.xml'')
       = [GetObject (lit ''unit.xml''),
          InvokeModel (prompt_of (lit ''\<newline>--- FILE: unit.xml ---\<newline>1 test'')),
          SendEmail (lit ''[CI] CI Report'')
            (JStr (lit (''Bedrock failed to generate a report.\<newline>\<newline>''
                        @ ''\<newline>--- FILE: unit.xml ---\<newline>1 test'')))]
   \<and> summary_fails garbled_env []
   \<and> process_key garbled_env (lit ''missing.xml'')
       = [GetObject (lit ''missing.xml''),
          InvokeModel (prompt_of []),
          SendEmail (lit ''[CI] CI Report'')
            (JStr (lit ''Bedrock failed to generate a report.\<newline>\<newline>(no CI data captured)''))]
   \<and> summary_fails unprintable_env (lit ''\<newline>--- FILE: unit.xml ---\<newline>1 test'')
   \<and> process_key unprintable_env (lit ''unit.xml'')
       = [GetObject (lit ''unit.xml''),
          InvokeModel (prompt_of (lit ''\<newline>--- FILE: unit.xml ---\<newline>1 test'')),
          SendEmail (lit ''[CI] CI Report'')
            (JStr (lit (''Bedrock failed to generate a report.\<newline>\<newline>''
                        @ ''\<newline>--- FILE: unit.xml ---\<newline>1 test'')))]
   \<and> summarise silent_env [] = (JStr [], [InvokeModel (prompt_of [])])
   \<and> body_of (output_text (JObj [])) = JStr (lit ''(empty report)'')"
proof -
  have f1: "summary_fails denied_env c" for c
    by (simp add: summary_fails_def denied_env_def demo_env_def)
  have f2: "summary_fails garbled_env c" for c
    by (simp add: summary_fails_def garbled_env_def demo_env_def demo_parse_def demo_message_def
        demo_response_def lit_def)
  note f3 = unprintable_fails
  have n: "chain (property (lit ''outputText''))
          (chain index0 (chain (property (lit ''results'')) (Some (JObj [])))) = None"
    by simp
  have p: "\<not> length_log_throws (output_text (JObj []))"
    by (simp add: output_text_def)
  have ne: "lit ''\<newline>--- FILE: unit.xml ---\<newline>1 test'' \<noteq> []" by (simp add: lit_def)
  note t1 = summary_failure_fallback [of denied_env
      "lit ''\<newline>--- FILE: unit.xml ---\<newline>1 test''" "lit ''unit.xml''" "[]" JNull]
  note t2 = summary_failure_fallback [of garbled_env "[]" "lit ''missing.xml''" "[]" JNull]
  note t3 = summary_failure_fallback [of unprintable_env
      "lit ''\<newline>--- FILE: unit.xml ---\<newline>1 test''" "lit ''unit.xml''" "[]" JNull]
  note t4 = summary_failure_fallback [of silent_env "[]" "[]" "lit ''{}''" "JObj []"]
  from t1 f1 have w1: "process_key denied_env (lit ''unit.xml'')
       = [GetObject (lit ''unit.xml''),
          InvokeModel (prompt_of (lit ''\<newline>--- FILE: unit.xml ---\<newline>1 test'')),
          SendEmail (lit ''[CI] CI Report'')
            (JStr (lit ''Bedrock failed to generate a report.\<newline>\<newline>''
                        @ lit ''\<newline>--- FILE: unit.xml ---\<newline>1 test''))]"
    by (simp add: demo_collect_unit ne)
  from t2 f2 have w2: "process_key garbled_env (lit ''missing.xml'')
       = [GetObject (lit ''missing.xml''),
          InvokeModel (prompt_of []),
          SendEmail (lit ''[CI] CI Report'')
            (JStr (lit ''Bedrock failed to generate a report.\<newline>\<newline>''
                   @ lit ''(no CI data captured)''))]"
    by (simp add: demo_collect_unit)
  from t3 f3 have w3: "process_key unprintable_env (lit ''unit.xml'')
       = [GetObject (lit ''unit.xml''),
          InvokeModel (prompt_of (lit ''\<newline>--- FILE: unit.xml ---\<newline>1 test'')),
          SendEmail (lit ''[CI] CI Report'')
            (JStr (lit ''Bedrock failed to generate a report.\<newline>\<newline>''
                        @ lit ''\<newline>--- FILE: unit.xml ---\<newline>1 test''))]"
    by (simp add: demo_collect_unit ne)
  from t4 p n have w4: "summarise silent_env [] = (JStr [], [InvokeModel (prompt_of [])])"
    and w5: "body_of (output_text (JObj [])) = JStr (lit ''(empty report)'')"
    by (simp_all add: silent_parse output_text_def)
  from w1 w2 w3 w4 w5 f1 f2 f3 show ?thesis
    by (simp add: lit_def)
qed

text \<open>
  C2, as stated, fails. The model answers \<open>{}\<close>, a malformed response: the report is the
  empty string, not the notice and the buffer, and the mail says \<open>(empty report)\<close>.
\<close>

theorem malformed_response_counterexample:
  "generation_fails silent_env (lit ''\<newline>--- FILE: unit.xml ---\<newline>1 test'')
   \<and> fst (summarise silent_env (lit ''\<newline>--- FILE: unit.xml ---\<newline>1 test''))
       \<noteq> JStr (lit ''Bedrock failed to generate a report.\<newline>\<newline>''
               @ lit ''\<newline>--- FILE: unit.xml ---\<newline>1 test'')
   \<and> fst (summarise silent_env (lit ''\<newline>--- FILE: unit.xml ---\<newline>1 test'')) = JStr []
   \<and> process_key silent_env (lit ''unit.xml'')
       = [GetObject (lit ''unit.xml''),
          InvokeModel (prompt_of (lit ''\<newline>--- FILE: unit.xml ---\<newline>1 test'')),
          SendEmail (lit ''[CI] CI Report'') (JStr (lit ''(empty report)''))]"
proof -
  have g: "generation_fails silent_env c" for c
    by (simp add: generation_fails_def silent_parse expected_response_def)
  have s: "fst (summarise silent_env c) = JStr []" for c
    by (simp add: summarise_def silent_parse output_text_def)
  have b: "body_of (JStr []) = JStr (lit ''(empty report)'')" by (simp add: body_of_def)
  have "lit ''Bedrock failed to generate a report.\<newline>\<newline>'' \<noteq> []" by (simp add: lit_def)
  with g s b show ?thesis
    by (simp add: process_key_calls demo_collect_unit)
qed

section \<open>Decoding the key\<close>

lemma replace_plus_no_plus: "0x2B \<notin> set (replace_plus s)"
  by (induction s) (simp_all add: replace_plus_def)

lemma replace_plus_length: "length (replace_plus s) = length s"
  by (simp add: replace_plus_def)

lemma replace_plus_nth:
  "i < length s \<Longrightarrow> replace_plus s ! i = (if s ! i = 0x2B then 0x20 else s ! i)"
  by (simp add: replace_plus_def)

lemma decodeURIComponent_plain: "0x25 \<notin> set s \<Longrightarrow> decodeURIComponent s = Some s"
  by (induction s) simp_all

lemma raw_key_s3_record: "raw_key (s3_record raw) = Inr raw"
  by (simp add: raw_key_def s3_record_def lit_def)

text \<open>
  C8. The key of a record is its raw key with every \<open>+\<close> turned into a space (same
  length, the other code units kept) and then percent-decoded. The grouping key, the
  listings, the fetch, the section header and the subject all take that key: the raw key is
  read nowhere else.
\<close>

theorem key_decoded_before_use:
  assumes "raw_key r = Inr raw" and "decodeURIComponent (replace_plus raw) = Some key"
  shows "record_key r = Inr key
     \<and> length (replace_plus raw) = length raw
     \<and> (\<forall>i < length raw. replace_plus raw ! i = (if raw ! i = 0x2B then 0x20 else raw ! i))
     \<and> inner_loop env (r # rs)
         = (fst (inner_loop env rs), process_key env key @ snd (inner_loop env rs))
     \<and> process_key env key
         = snd (collect env key (runOf key))
           @ [InvokeModel (prompt_of (fst (collect env key (runOf key)))),
              SendEmail (subject_of (SUBJECT_PREFIX env) (runOf key))
                (body_of (fst (summarise env (fst (collect env key (runOf key))))))]"
proof (intro conjI)
  from assms show k: "record_key r = Inr key" by (simp add: record_key_def)
  show "length (replace_plus raw) = length raw" by (rule replace_plus_length)
  show "\<forall>i < length raw. replace_plus raw ! i = (if raw ! i = 0x2B then 0x20 else raw ! i)"
    by (simp add: replace_plus_nth)
  from k show "inner_loop env (r # rs)
         = (fst (inner_loop env rs), process_key env key @ snd (inner_loop env rs))"
    by (simp split: prod.splits)
  show "process_key env key
         = snd (collect env key (runOf key))
           @ [InvokeModel (prompt_of (fst (collect env key (runOf key)))),
              SendEmail (subject_of (SUBJECT_PREFIX env) (runOf key))
                (body_of (fst (summarise env (fst (collect env key (runOf key))))))]"
    by (rule process_key_calls)
qed

lemma demo_decode:
  "decodeURIComponent (replace_plus (lit ''test-results/run+1/a%2Bb.xml''))
     = Some (lit ''test-results/run 1/a+b.xml'')"
  by (simp add: replace_plus_def lit_def hex_digit_def leading_ones_def)

lemma demo_summarise:
  "fst (summarise demo_env c) = JStr (lit ''All tests passed.'')"
  by (simp add: summarise_def demo_env_def demo_parse_def demo_response_value_def output_text_def)
     (simp add: lit_def demo_message_def demo_response_def)

lemma demo_listings_run_1:
  "s3_list demo_env (lit ''test-results/'' @ lit ''run 1'' @ lit ''/'') = Inr \<lparr>Contents = None\<rparr>"
  "s3_list demo_env (lit ''sonarqube/'' @ lit ''run 1'' @ lit ''/'') = Inr \<lparr>Contents = None\<rparr>"
  by (simp_all add: demo_defs lit_def)

lemma demo_collect_run_1:
  "collect demo_env (lit ''test-results/run 1/a+b.xml'') (Some (lit ''run 1''))
     = (lit ''\<newline>--- FILE: test-results/run 1/a+b.xml ---\<newline>4 tests'',
        [ListObjects (lit ''test-results/run 1/''), ListObjects (lit ''sonarqube/run 1/''),
         GetObject (lit ''test-results/run 1/a+b.xml'')])"
  by (simp add: collect_def list_both_def listPrefixText_def contents_of_def fetch_single_def
        demo_listings_run_1 file_section_def truncate_default_def truncate_text_def)
     (simp add: lit_def)

lemma demo_collect_run1:
  "collect demo_env (lit ''test-results/run1/unit.xml'') (Some (lit ''run1''))
     = (lit (''\<newline>--- FILE: test-results/run1/unit.xml ---\<newline>2 tests, 0 failures\<newline>''
             @ ''\<newline>--- FILE: test-results/run1/e2e.xml ---\<newline>1 test, 1 failure\<newline>''
             @ ''\<newline>--- FILE: sonarqube/run1/scan.log ---\<newline>no issues''),
        [ListObjects (lit ''test-results/run1/''),
         GetObject (lit ''test-results/run1/unit.xml''),
         GetObject (lit ''test-results/run1/e2e.xml''),
         ListObjects (lit ''sonarqube/run1/''),
         GetObject (lit ''sonarqube/run1/scan.log'')])"
proof -
  have r: "lit ''run1'' \<noteq> []" by (simp add: lit_def)
  have g: "\<forall>k \<in> set (listed_keys (contents_of
               \<lparr>Contents = Some [\<lparr>Key = Some (lit ''test-results/run1/unit.xml'')\<rparr>,
                                 \<lparr>Key = None\<rparr>,
                                 \<lparr>Key = Some (lit ''test-results/run1/e2e.xml'')\<rparr>]\<rparr>)
             @ listed_keys (contents_of
               \<lparr>Contents = Some [\<lparr>Key = Some (lit ''sonarqube/run1/scan.log'')\<rparr>]\<rparr>)).
           get_text demo_env k = Inr (demo_text k)"
    by (simp add: contents_of_def demo_text_def) (simp add: lit_def)
  show ?thesis
    using r list_both_listed [OF demo_listings(1) demo_listings(2) g]
    by (simp add: collect_def contents_of_def demo_text_def file_section_def
          truncate_default_def truncate_text_def lit_def)
qed

theorem key_decoded_before_use_witness:
  "raw_key (s3_record (lit ''test-results/run+1/a%2Bb.xml'')) = Inr (lit ''test-results/run+1/a%2Bb.xml'')
   \<and> record_key (s3_record (lit ''test-results/run+1/a%2Bb.xml''))
       = Inr (lit ''test-results/run 1/a+b.xml'')
   \<and> inner_loop demo_env [s3_record (lit ''test-results/run+1/a%2Bb.xml'')]
       = (Inr (),
          [ListObjects (lit ''test-results/run 1/''), ListObjects (lit ''sonarqube/run 1/''),
           GetObject (lit ''test-results/run 1/a+b.xml''),
           InvokeModel (prompt_of (lit ''\<newline>--- FILE: test-results/run 1/a+b.xml ---\<newline>4 tests'')),
           SendEmail (lit ''[CI] CI Report - run 1'') (JStr (lit ''All tests passed.''))])"
proof -
  have run: "runOf (lit ''test-results/run 1/a+b.xml'') = Some (lit ''run 1'')"
    by (simp add: runOf_def lit_def)
  have subj: "subject_of (lit ''[CI]'') (Some (lit ''run 1'')) = lit ''[CI] CI Report - run 1''"
    by (simp add: subject_of_def lit_def trim_def is_space_def)
  have body: "body_of (JStr (lit ''All tests passed.'')) = JStr (lit ''All tests passed.'')"
    by (simp add: body_of_def lit_def)
  from key_decoded_before_use [OF raw_key_s3_record demo_decode, of demo_env "[]"]
  show ?thesis
    by (simp add: raw_key_s3_record run demo_collect_run_1 demo_summarise subj body)
qed

section \<open>The handler and a malformed message\<close>

lemma message_of_malformed:
  "m \<noteq> [] \<Longrightarrow> JSON_parse env m = None \<Longrightarrow> message_of env (record_with m) = Inl SyntaxError"
  by (simp add: message_of_def record_with_def)

lemma outer_loop_throws:
  "message_of env rec = Inl e \<Longrightarrow> outer_loop env (rec # recs) = (Inl e, [])"
  by (simp add: process_record_def)

text \<open>What \<open>JSON.parse\<close> throws at one record ends the handler: no later record is read.\<close>

lemma handler_malformed_first:
  "m \<noteq> [] \<Longrightarrow> JSON_parse env m = None \<Longrightarrow>
   handler env \<lparr>Records = Some (record_with m # recs)\<rparr> = (Inl SyntaxError, [])"
  by (simp add: handler_def process_record_def message_of_malformed)

lemma demo_process_record:
  "process_record demo_env (record_with demo_message)
     = (Inr (),
        [ListObjects (lit ''test-results/run1/''),
         GetObject (lit ''test-results/run1/unit.xml''),
         GetObject (lit ''test-results/run1/e2e.xml''),
         ListObjects (lit ''sonarqube/run1/''),
         GetObject (lit ''sonarqube/run1/scan.log''),
         InvokeModel (prompt_of (lit
            (''\<newline>--- FILE: test-results/run1/unit.xml ---\<newline>2 tests, 0 failures\<newline>''
             @ ''\<newline>--- FILE: test-results/run1/e2e.xml ---\<newline>1 test, 1 failure\<newline>''
             @ ''\<newline>--- FILE: sonarqube/run1/scan.log ---\<newline>no issues''))),
         SendEmail (lit ''[CI] CI Report - run1'') (JStr (lit ''All tests passed.''))])"
proof -
  have m: "message_of demo_env (record_with demo_message) = Inr demo_message_value"
    by (simp add: message_of_def record_with_def demo_env_def demo_parse_def)
       (simp add: demo_message_def lit_def)
  have el: "elements (s3Recs demo_message_value)
      = Inr [s3_record (lit ''test-results/run1/unit.xml'')]"
    by (simp add: s3Recs_def demo_message_value_def s3_record_def)
  have d: "decodeURIComponent (replace_plus (lit ''test-results/run1/unit.xml''))
      = Some (lit ''test-results/run1/unit.xml'')"
    by (simp add: replace_plus_def lit_def)
  then have k: "record_key (s3_record (lit ''test-results/run1/unit.xml''))
      = Inr (lit ''test-results/run1/unit.xml'')"
    by (simp add: record_key_def raw_key_s3_record)
  have run: "runOf (lit ''test-results/run1/unit.xml'') = Some (lit ''run1'')"
    by (simp add: runOf_def lit_def)
  have subj: "subject_of (lit ''[CI]'') (Some (lit ''run1'')) = lit ''[CI] CI Report - run1''"
    by (simp add: subject_of_def lit_def trim_def is_space_def)
  have body: "body_of (JStr (lit ''All tests passed.'')) = JStr (lit ''All tests passed.'')"
    by (simp add: body_of_def lit_def)
  show ?thesis
    by (simp add: process_record_def m el k process_key_calls run demo_collect_run1
          demo_summarise subj body)
qed

text \<open>
  No failure of a service stops the handler: when every message parses to a list of records
  whose keys decode, it returns \<open>{ ok: true }\<close>, whatever the services do.
\<close>

lemma inner_loop_completes:
  "\<forall>r \<in> set rs. \<exists>key. record_key r = Inr key \<Longrightarrow> fst (inner_loop env rs) = Inr ()"
  by (induction rs) (auto split: prod.splits)

lemma outer_loop_completes:
  "\<forall>rec \<in> set recs. \<exists>msg rs. message_of env rec = Inr msg \<and> elements (s3Recs msg) = Inr rs
       \<and> (\<forall>r \<in> set rs. \<exists>key. record_key r = Inr key) \<Longrightarrow>
   fst (outer_loop env recs) = Inr ()"
proof (induction recs)
  case Nil
  then show ?case by simp
next
  case (Cons rec recs)
  then obtain msg rs where m: "message_of env rec = Inr msg"
    and e: "elements (s3Recs msg) = Inr rs"
    and k: "\<forall>r \<in> set rs. \<exists>key. record_key r = Inr key"
    by auto
  from inner_loop_completes [OF k] m e have "fst (process_record env rec) = Inr ()"
    by (simp add: process_record_def)
  moreover from Cons have "fst (outer_loop env recs) = Inr ()" by simp
  ultimately show ?case by (auto split: prod.splits sum.splits)
qed

lemma handler_completes:
  assumes "\<forall>rec \<in> set recs. \<exists>msg rs. message_of env rec = Inr msg
       \<and> elements (s3Recs msg) = Inr rs \<and> (\<forall>r \<in> set rs. \<exists>key. record_key r = Inr key)"
  shows "fst (handler env \<lparr>Records = Some recs\<rparr>) = Inr \<lparr>ok = True\<rparr>"
  using outer_loop_completes [OF assms]
  by (auto simp: handler_def split: prod.splits sum.splits)

text \<open>
  C1. The handler at a payload of two outer records, the first with a message that is not
  JSON, the second well formed: the \<open>SyntaxError\<close> of line 78 rejects the invocation, no
  call is made and no mail is sent. The second record alone is processed and mailed, and
  the handler returns \<open>{ ok: true }\<close>.
\<close>

theorem malformed_message_rejects:
  "handler demo_env
      \<lparr>Records = Some [record_with (lit ''not json''), record_with demo_message]\<rparr>
     = (Inl SyntaxError, [])
   \<and> handler demo_env \<lparr>Records = Some [record_with demo_message]\<rparr>
     = (Inr \<lparr>ok = True\<rparr>,
        [ListObjects (lit ''test-results/run1/''),
         GetObject (lit ''test-results/run1/unit.xml''),
         GetObject (lit ''test-results/run1/e2e.xml''),
         ListObjects (lit ''sonarqube/run1/''),
         GetObject (lit ''sonarqube/run1/scan.log''),
         InvokeModel (prompt_of (lit
            (''\<newline>--- FILE: test-results/run1/unit.xml ---\<newline>2 tests, 0 failures\<newline>''
             @ ''\<newline>--- FILE: test-results/run1/e2e.xml ---\<newline>1 test, 1 failure\<newline>''
             @ ''\<newline>--- FILE: sonarqube/run1/scan.log ---\<newline>no issues''))),
         SendEmail (lit ''[CI] CI Report - run1'') (JStr (lit ''All tests passed.''))])"
proof
  have "lit ''not json'' \<noteq> []" by (simp add: lit_def)
  moreover have "JSON_parse demo_env (lit ''not json'') = None"
    by (simp add: demo_env_def demo_parse_def demo_message_def demo_response_def lit_def)
  ultimately show "handler demo_env
      \<lparr>Records = Some [record_with (lit ''not json''), record_with demo_message]\<rparr>
     = (Inl SyntaxError, [])"
    by (rule handler_malformed_first)
  show "handler demo_env \<lparr>Records = Some [record_with demo_message]\<rparr>
     = (Inr \<lparr>ok = True\<rparr>,
        [ListObjects (lit ''test-results/run1/''),
         GetObject (lit ''test-results/run1/unit.xml''),
         GetObject (lit ''test-results/run1/e2e.xml''),
         ListObjects (lit ''sonarqube/run1/''),
         GetObject (lit ''sonarqube/run1/scan.log''),
         InvokeModel (prompt_of (lit
            (''\<newline>--- FILE: test-results/run1/unit.xml ---\<newline>2 tests, 0 failures\<newline>''
             @ ''\<newline>--- FILE: test-results/run1/e2e.xml ---\<newline>1 test, 1 failure\<newline>''
             @ ''\<newline>--- FILE: sonarqube/run1/scan.log ---\<newline>no issues''))),
         SendEmail (lit ''[CI] CI Report - run1'') (JStr (lit ''All tests passed.''))])"
    by (simp add: handler_def demo_process_record)
qed

end
